theory Spec2Isabelle
  imports Complex_Main "HOL-Library.AList"
begin

section \<open>Values, errors and data frames\<close>

text \<open>
  The transformer (\<^verbatim>\<open>transformer.py\<close>) drives pandas frames through a fixed sequence of
  column operations. A cell of a frame is null, a text, an integer, a float or a date; the
  type \<open>'f\<close> stands for float64 values, about which nothing is assumed.
\<close>

datatype error =
    KeyError string
  | ValueError string
  | TypeError string
  | ParseError string
  | StorageError string

fun ebind :: "error + 'a \<Rightarrow> ('a \<Rightarrow> error + 'b) \<Rightarrow> error + 'b" where
  "ebind (Inl e) f = Inl e"
| "ebind (Inr x) f = f x"

fun emap :: "('a \<Rightarrow> error + 'b) \<Rightarrow> 'a list \<Rightarrow> error + 'b list" where
  "emap f [] = Inr []"
| "emap f (x # xs) = ebind (f x) (\<lambda>y. ebind (emap f xs) (\<lambda>ys. Inr (y # ys)))"

text \<open>A sequence of statements on one value, each of which may raise.\<close>

fun run_steps :: "('a \<Rightarrow> error + 'a) list \<Rightarrow> 'a \<Rightarrow> error + 'a" where
  "run_steps [] x = Inr x"
| "run_steps (f # fs) x = ebind (f x) (run_steps fs)"

datatype date = Date (date_year: int) (date_month: nat) (date_day: nat)

datatype 'f cell = Null | Text string | IntV int | FloatV 'f | DateV date

datatype 'f num = NInt int | NFloat 'f

type_synonym 'f series = "'f cell list"

type_synonym 'f pydict = "(string \<times> 'f cell) list"

record 'f frame =
  nrows :: nat
  columns :: "(string \<times> 'f series) list"

text \<open>
  The functions the transformer imports from the parser and the S3 helpers are not part of
  the file under study, and the pandas and Python primitives are library code: they are the
  fields of an environment. A field whose source counterpart can raise returns a sum.
  \<^item> \<open>numeric_text\<close> is what \<^verbatim>\<open>pd.to_numeric(errors="coerce")\<close> makes of one text:
    \<open>None\<close> when the text is coerced to NaN;
  \<^item> \<open>float_as_int\<close> is the safe cast of \<^verbatim>\<open>astype("Int64")\<close>: \<open>None\<close> when the float
    is not integral, where pandas raises;
  \<^item> \<open>strptime_dmy\<close> is \<^verbatim>\<open>pd.to_datetime(format="%d/%m/%Y", errors="coerce")\<close> on one
    text: \<open>None\<close> is NaT;
  \<^item> \<open>download_lines\<close> is \<^verbatim>\<open>download_file_from_s3\<close> followed by reading the local
    copy and \<^verbatim>\<open>splitlines\<close>;
  \<^item> \<open>upload_fails bucket key\<close> tells whether \<^verbatim>\<open>upload_file_to_s3\<close> raises for that
    destination.
\<close>

record 'f env =
  split_header_body :: "string list \<Rightarrow> error + (string list \<times> string list)"
  process_header :: "string list \<Rightarrow> error + 'f pydict"
  process_body :: "string list \<Rightarrow> error + 'f pydict list"
  split_vendido_por_column :: "'f frame \<Rightarrow> error + 'f frame"
  list_files_in_s3 :: "string \<Rightarrow> string \<Rightarrow> error + string list"
  download_lines :: "string \<Rightarrow> string \<Rightarrow> error + string list"
  upload_fails :: "string \<Rightarrow> string \<Rightarrow> bool"
  numeric_text :: "string \<Rightarrow> 'f num option"
  float_as_int :: "'f \<Rightarrow> int option"
  int_as_float :: "int \<Rightarrow> 'f"
  float_zero :: "'f"
  strptime_dmy :: "string \<Rightarrow> date option"
  py_str :: "'f cell \<Rightarrow> string"
  str_upper :: "string \<Rightarrow> string"

subsection \<open>Frames\<close>

definition first_seen :: "'a list \<Rightarrow> 'a list" where
  "first_seen xs = rev (remdups (rev xs))"

text \<open>\<^verbatim>\<open>pd.DataFrame(list_of_dicts)\<close>: one row per dict, one column per key, null where a
  dict lacks the key.\<close>

definition DataFrame :: "'f pydict list \<Rightarrow> 'f frame" where
  "DataFrame rows =
     \<lparr>nrows = length rows,
      columns = map (\<lambda>k. (k, map (\<lambda>r. case map_of r k of None \<Rightarrow> Null | Some v \<Rightarrow> v) rows))
                    (first_seen (concat (map (map fst) rows)))\<rparr>"

text \<open>\<^verbatim>\<open>df[c]\<close> raises KeyError when the frame has no such column.\<close>

definition getcol :: "'f frame \<Rightarrow> string \<Rightarrow> error + 'f series" where
  "getcol df c = (case map_of (columns df) c of None \<Rightarrow> Inl (KeyError c) | Some s \<Rightarrow> Inr s)"

text \<open>\<^verbatim>\<open>df[c] = series\<close> replaces the column, or appends it when it is new.\<close>

definition setcol :: "string \<Rightarrow> 'f series \<Rightarrow> 'f frame \<Rightarrow> 'f frame" where
  "setcol c s df = df\<lparr>columns := AList.update c s (columns df)\<rparr>"

text \<open>\<^verbatim>\<open>df[c] = None\<close>: the scalar is broadcast to every row.\<close>

definition setcol_scalar :: "string \<Rightarrow> 'f cell \<Rightarrow> 'f frame \<Rightarrow> 'f frame" where
  "setcol_scalar c v df = setcol c (replicate (nrows df) v) df"

text \<open>\<^verbatim>\<open>df[c] = f(df[c])\<close>, the statement form of every coercion of the transformer.\<close>

definition assign_from :: "string \<Rightarrow> ('f series \<Rightarrow> error + 'f series) \<Rightarrow> 'f frame \<Rightarrow> error + 'f frame" where
  "assign_from c f df =
     ebind (getcol df c) (\<lambda>s. ebind (f s) (\<lambda>s'. Inr (setcol c s' df)))"

text \<open>\<^verbatim>\<open>df[[c1, ..., cn]]\<close> raises KeyError when a listed column is missing.\<close>

fun select_columns :: "string list \<Rightarrow> 'f frame \<Rightarrow> error + (string \<times> 'f series) list" where
  "select_columns [] df = Inr []"
| "select_columns (c # cs) df =
     ebind (getcol df c) (\<lambda>s. ebind (select_columns cs df) (\<lambda>rest. Inr ((c, s) # rest)))"

definition select :: "string list \<Rightarrow> 'f frame \<Rightarrow> error + 'f frame" where
  "select cs df = ebind (select_columns cs df) (\<lambda>sel. Inr (df\<lparr>columns := sel\<rparr>))"

text \<open>\<^verbatim>\<open>df.loc[mask, c] = v\<close>: writes \<open>v\<close> in the rows of the mask; a column that does not
  exist yet is created, null outside the mask.\<close>

definition loc_set :: "bool list \<Rightarrow> string \<Rightarrow> 'f cell \<Rightarrow> 'f frame \<Rightarrow> 'f frame" where
  "loc_set msk c v df =
     (case map_of (columns df) c of
        None \<Rightarrow> setcol c (map (\<lambda>m. if m then v else Null) msk) df
      | Some s \<Rightarrow> setcol c (map (\<lambda>(m, x). if m then v else x) (zip msk s)) df)"

text \<open>\<^verbatim>\<open>df.drop(columns=[c], errors="ignore")\<close>.\<close>

definition drop_column :: "string \<Rightarrow> 'f frame \<Rightarrow> 'f frame" where
  "drop_column c df = df\<lparr>columns := AList.delete c (columns df)\<rparr>"

text \<open>\<^verbatim>\<open>df.replace({"N/A": None, "n/a": None, "": None})\<close> on every cell of the frame.\<close>

definition replace_cell :: "'f cell \<Rightarrow> 'f cell" where
  "replace_cell c = (if c = Text ''N/A'' \<or> c = Text ''n/a'' \<or> c = Text [] then Null else c)"

definition replace_sentinels :: "'f frame \<Rightarrow> 'f frame" where
  "replace_sentinels df = df\<lparr>columns := map (\<lambda>(c, s). (c, map replace_cell s)) (columns df)\<rparr>"

subsection \<open>Series primitives of pandas\<close>

text \<open>\<^verbatim>\<open>pd.to_numeric(series, errors="coerce")\<close>, cell by cell: a text that does not
  parse, and a null, give null. (No date column is ever passed to it.)\<close>

definition to_numeric_cell :: "'f env \<Rightarrow> 'f cell \<Rightarrow> 'f cell" where
  "to_numeric_cell env c =
     (case c of
        Text t \<Rightarrow> (case numeric_text env t of
                     None \<Rightarrow> Null
                   | Some (NInt i) \<Rightarrow> IntV i
                   | Some (NFloat x) \<Rightarrow> FloatV x)
      | IntV i \<Rightarrow> IntV i
      | FloatV x \<Rightarrow> FloatV x
      | _ \<Rightarrow> Null)"

definition to_numeric :: "'f env \<Rightarrow> 'f series \<Rightarrow> 'f series" where
  "to_numeric env s = map (to_numeric_cell env) s"

text \<open>\<^verbatim>\<open>.astype("Int64")\<close>: the nullable integer type; a float that is not integral cannot
  be cast safely and pandas raises TypeError.\<close>

definition astype_Int64_cell :: "'f env \<Rightarrow> 'f cell \<Rightarrow> error + 'f cell" where
  "astype_Int64_cell env c =
     (case c of
        Null \<Rightarrow> Inr Null
      | IntV i \<Rightarrow> Inr (IntV i)
      | FloatV x \<Rightarrow> (case float_as_int env x of
                      None \<Rightarrow> Inl (TypeError ''cannot safely cast non-equivalent float64 to int64'')
                    | Some i \<Rightarrow> Inr (IntV i))
      | _ \<Rightarrow> Inl (TypeError ''cannot cast to Int64''))"

definition astype_Int64 :: "'f env \<Rightarrow> 'f series \<Rightarrow> error + 'f series" where
  "astype_Int64 env s = emap (astype_Int64_cell env) s"

definition fillna :: "'f cell \<Rightarrow> 'f series \<Rightarrow> 'f series" where
  "fillna v s = map (\<lambda>c. if c = Null then v else c) s"

text \<open>\<^verbatim>\<open>.astype("int64")\<close>: the plain integer type has no null.\<close>

definition astype_int64_cell :: "'f cell \<Rightarrow> error + 'f cell" where
  "astype_int64_cell c =
     (case c of
        IntV i \<Rightarrow> Inr (IntV i)
      | Null \<Rightarrow> Inl (ValueError ''cannot convert NA to integer'')
      | _ \<Rightarrow> Inl (TypeError ''cannot cast to int64''))"

definition astype_int64 :: "'f series \<Rightarrow> error + 'f series" where
  "astype_int64 s = emap astype_int64_cell s"

definition astype_float64_cell :: "'f env \<Rightarrow> 'f cell \<Rightarrow> error + 'f cell" where
  "astype_float64_cell env c =
     (case c of
        IntV i \<Rightarrow> Inr (FloatV (int_as_float env i))
      | FloatV x \<Rightarrow> Inr (FloatV x)
      | Null \<Rightarrow> Inr Null
      | _ \<Rightarrow> Inl (ValueError ''could not convert to float''))"

definition astype_float64 :: "'f env \<Rightarrow> 'f series \<Rightarrow> error + 'f series" where
  "astype_float64 env s = emap (astype_float64_cell env) s"

text \<open>\<^verbatim>\<open>.astype("string")\<close>: a null stays null, a text stays itself, anything else is
  rendered by \<^verbatim>\<open>str\<close>.\<close>

definition astype_string_cell :: "'f env \<Rightarrow> 'f cell \<Rightarrow> 'f cell" where
  "astype_string_cell env c =
     (case c of Null \<Rightarrow> Null | Text t \<Rightarrow> Text t | _ \<Rightarrow> Text (py_str env c))"

definition astype_string :: "'f env \<Rightarrow> 'f series \<Rightarrow> 'f series" where
  "astype_string env s = map (astype_string_cell env) s"

text \<open>\<^verbatim>\<open>pd.to_datetime(series, format="%d/%m/%Y", errors="coerce")\<close>: what does not parse
  is NaT.\<close>

definition to_datetime_cell :: "'f env \<Rightarrow> 'f cell \<Rightarrow> 'f cell" where
  "to_datetime_cell env c =
     (case c of
        Text t \<Rightarrow> (case strptime_dmy env t of None \<Rightarrow> Null | Some d \<Rightarrow> DateV d)
      | DateV d \<Rightarrow> DateV d
      | _ \<Rightarrow> Null)"

definition to_datetime :: "'f env \<Rightarrow> 'f series \<Rightarrow> 'f series" where
  "to_datetime env s = map (to_datetime_cell env) s"

subsection \<open>The coercion helpers of the transformer\<close>

text \<open>\<^verbatim>\<open>_to_int64(series, default=None)\<close>.\<close>

definition to_int64 :: "'f env \<Rightarrow> 'f series \<Rightarrow> int option \<Rightarrow> error + 'f series" where
  "to_int64 env series dflt =
     ebind (astype_Int64 env (to_numeric env series)) (\<lambda>s.
       case dflt of
         None \<Rightarrow> Inr s
       | Some d \<Rightarrow> astype_int64 (fillna (IntV d) s))"

text \<open>\<^verbatim>\<open>_to_float64(series, default=0.0)\<close>.\<close>

definition to_float64 :: "'f env \<Rightarrow> 'f series \<Rightarrow> 'f \<Rightarrow> error + 'f series" where
  "to_float64 env series dflt =
     astype_float64 env (fillna (FloatV dflt) (to_numeric env series))"

text \<open>\<^verbatim>\<open>_to_string(series)\<close>.\<close>

definition to_string :: "'f env \<Rightarrow> 'f series \<Rightarrow> error + 'f series" where
  "to_string env series = Inr (astype_string env series)"

section \<open>Normalization of the prize records (lines 133 to 157)\<close>

definition premios_columns :: "string list" where
  "premios_columns =
     [''numero_sorteo'', ''numero_premiado'', ''letras'', ''monto'',
      ''vendedor'', ''ciudad'', ''departamento'']"

text \<open>\<^verbatim>\<open>.str.upper()\<close> gives NaN for a cell that is not a text; \<^verbatim>\<open>.eq(v)\<close> compares
  cell by cell.\<close>

definition str_upper_series :: "'f env \<Rightarrow> 'f series \<Rightarrow> 'f series" where
  "str_upper_series env s = map (\<lambda>c. case c of Text t \<Rightarrow> Text (str_upper env t) | _ \<Rightarrow> Null) s"

definition eq_series :: "'f cell \<Rightarrow> 'f series \<Rightarrow> bool list" where
  "eq_series v s = map (\<lambda>c. c = v) s"

text \<open>Lines 137 and 138: the department of the rows sold in the capital.\<close>

definition capital_override :: "'f env \<Rightarrow> 'f frame \<Rightarrow> error + 'f frame" where
  "capital_override env premios_df =
     ebind (getcol premios_df ''ciudad'') (\<lambda>ciudad.
       let mask_capital =
             eq_series (Text ''DE ESTA CAPITAL'') (str_upper_series env (fillna (Text []) ciudad))
       in Inr (loc_set mask_capital ''departamento'' (Text ''GUATEMALA'') premios_df))"

text \<open>Lines 148 to 157: the placeholders become null, then each column gets its type.\<close>

definition enforce_premios_schema :: "'f env \<Rightarrow> 'f frame \<Rightarrow> error + 'f frame" where
  "enforce_premios_schema env premios_df =
     run_steps
       [assign_from ''numero_sorteo'' (\<lambda>s. to_int64 env s (Some 0)),
        assign_from ''numero_premiado'' (\<lambda>s. to_int64 env s None),
        assign_from ''monto'' (\<lambda>s. to_float64 env s (float_zero env)),
        assign_from ''letras'' (to_string env),
        assign_from ''vendedor'' (to_string env),
        assign_from ''ciudad'' (to_string env),
        assign_from ''departamento'' (to_string env)]
       (replace_sentinels premios_df)"

definition normalize_premios :: "'f env \<Rightarrow> 'f frame \<Rightarrow> error + 'f frame" where
  "normalize_premios env premios_df =
     run_steps
       [split_vendido_por_column env,
        capital_override env,
        select premios_columns,
        enforce_premios_schema env]
       premios_df"

section \<open>Normalization of the draw record (lines 163 to 210)\<close>

text \<open>\<^verbatim>\<open>str.split(",")\<close>: every comma separates; the empty text is one empty part.\<close>

fun split_on :: "char \<Rightarrow> string \<Rightarrow> string list" where
  "split_on d [] = [[]]"
| "split_on d (c # cs) =
     (if c = d then [] # split_on d cs
      else (case split_on d cs of p # ps \<Rightarrow> (c # p) # ps | [] \<Rightarrow> [[c]]))"

definition str_split_cell :: "'f cell \<Rightarrow> 'f cell list" where
  "str_split_cell c = (case c of Text t \<Rightarrow> map Text (split_on CHR '','' t) | _ \<Rightarrow> [Null])"

text \<open>\<^verbatim>\<open>.str.split(",", expand=True)\<close>: as many columns as the longest row has parts,
  the shorter rows padded with null.\<close>

definition str_split_expand :: "'f series \<Rightarrow> 'f series list" where
  "str_split_expand s =
     (let parts = map str_split_cell s;
          k = fold max (map length parts) 0
      in map (\<lambda>j. map (\<lambda>ps. if j < length ps then ps ! j else Null) parts) [0..<k])"

text \<open>Lines 167 and 168: \<^verbatim>\<open>while reintegro_split.shape[1] < 3\<close> appends a null column.\<close>

function pad_columns :: "nat \<Rightarrow> 'f series list \<Rightarrow> 'f series list" where
  "pad_columns n cols =
     (if length cols < 3 then pad_columns n (cols @ [replicate n Null]) else cols)"
  by pat_completeness auto
termination
  by (relation "measure (\<lambda>(n, cols). 3 - length cols)") auto

declare pad_columns.simps [simp del]

text \<open>Lines 164 to 178: the branch on \<^verbatim>\<open>"reintegros" in sorteos_df.columns\<close>. After the
  padding the split has at least three columns, so reading columns 0, 1 and 2 cannot fail.\<close>

definition split_reintegros :: "'f env \<Rightarrow> 'f frame \<Rightarrow> 'f frame" where
  "split_reintegros env sorteos_df =
     (case map_of (columns sorteos_df) ''reintegros'' of
        Some reintegros \<Rightarrow>
          (let reintegro_split =
                 pad_columns (nrows sorteos_df) (str_split_expand (astype_string env reintegros));
               df = setcol ''reintegro_primer_premio'' (reintegro_split ! 0) sorteos_df;
               df = setcol ''reintegro_segundo_premio'' (reintegro_split ! 1) df;
               df = setcol ''reintegro_tercer_premio'' (reintegro_split ! 2) df
           in drop_column ''reintegros'' df)
      | None \<Rightarrow>
          (let df = setcol_scalar ''reintegro_primer_premio'' Null sorteos_df;
               df = setcol_scalar ''reintegro_segundo_premio'' Null df
           in setcol_scalar ''reintegro_tercer_premio'' Null df))"

text \<open>Lines 181 to 204.\<close>

definition enforce_sorteos_schema :: "'f env \<Rightarrow> 'f frame \<Rightarrow> error + 'f frame" where
  "enforce_sorteos_schema env sorteos_df =
     run_steps
       [assign_from ''reintegro_primer_premio'' (\<lambda>s. to_int64 env s None),
        assign_from ''reintegro_segundo_premio'' (\<lambda>s. to_int64 env s None),
        assign_from ''reintegro_tercer_premio'' (\<lambda>s. to_int64 env s None),
        assign_from ''numero_sorteo'' (\<lambda>s. to_int64 env s (Some 0)),
        assign_from ''primer_premio'' (\<lambda>s. to_int64 env s None),
        assign_from ''segundo_premio'' (\<lambda>s. to_int64 env s None),
        assign_from ''tercer_premio'' (\<lambda>s. to_int64 env s None),
        assign_from ''fecha_sorteo'' (\<lambda>s. Inr (to_datetime env s)),
        assign_from ''fecha_caducidad'' (\<lambda>s. Inr (to_datetime env s))]
       sorteos_df"

definition normalize_sorteos :: "'f env \<Rightarrow> 'f frame \<Rightarrow> error + 'f frame" where
  "normalize_sorteos env sorteos_df = enforce_sorteos_schema env (split_reintegros env sorteos_df)"

text \<open>Decimal rendering of the numbers that an f-string interpolates.\<close>

definition digit_char :: "nat \<Rightarrow> char" where
  "digit_char d = ''0123456789'' ! d"

fun show_nat :: "nat \<Rightarrow> string" where
  "show_nat n = (if n < 10 then [digit_char n] else show_nat (n div 10) @ [digit_char (n mod 10)])"

declare show_nat.simps [simp del]

definition show_int :: "int \<Rightarrow> string" where
  "show_int i = (if i < 0 then CHR ''-'' # show_nat (nat (- i)) else show_nat (nat i))"

text \<open>Lines 207 to 210: the file fails when every draw date is NaT; the year is read from
  the first row, and \<^verbatim>\<open>int\<close> of the NaN year of a NaT raises.\<close>

definition invalid_fecha_sorteo :: "nat \<Rightarrow> error" where
  "invalid_fecha_sorteo numero_sorteo =
     ValueError (''Invalid fecha_sorteo for sorteo='' @ show_nat numero_sorteo
                   @ ''. Cannot derive year partition.'')"

definition derive_year :: "'f frame \<Rightarrow> nat \<Rightarrow> error + int" where
  "derive_year sorteos_df numero_sorteo =
     ebind (getcol sorteos_df ''fecha_sorteo'') (\<lambda>fecha_sorteo.
       if list_all (\<lambda>c. c = Null) fecha_sorteo
       then Inl (invalid_fecha_sorteo numero_sorteo)
       else (case fecha_sorteo of
               DateV d # _ \<Rightarrow> Inr (date_year d)
             | _ \<Rightarrow> Inl (ValueError ''cannot convert float NaN to integer'')))"

section \<open>Parsing one file (lines 116 to 130)\<close>

text \<open>Lines 123 and 124: every prize gets the draw number of the header;
  \<^verbatim>\<open>sorteos[0]["numero_sorteo"]\<close> raises KeyError when the header has none, and is only
  evaluated when there is a prize.\<close>

definition attach_numero_sorteo :: "'f pydict \<Rightarrow> 'f pydict list \<Rightarrow> error + 'f pydict list" where
  "attach_numero_sorteo header premios =
     emap (\<lambda>premio.
            case map_of header ''numero_sorteo'' of
              None \<Rightarrow> Inl (KeyError ''numero_sorteo'')
            | Some v \<Rightarrow> Inr (AList.update ''numero_sorteo'' v premio))
          premios"

definition parse_file :: "'f env \<Rightarrow> string list \<Rightarrow> error + ('f pydict list \<times> 'f pydict list)" where
  "parse_file env lines =
     ebind (split_header_body env lines) (\<lambda>(header_lines, body_lines).
     ebind (process_header env header_lines) (\<lambda>header.
     ebind (process_body env body_lines) (\<lambda>premios.
     ebind (attach_numero_sorteo header premios) (\<lambda>premios.
     Inr ([header], premios)))))"

text \<open>Lines 129 to 210: both frames and the partition year.\<close>

definition normalize ::
  "'f env \<Rightarrow> 'f pydict list \<Rightarrow> 'f pydict list \<Rightarrow> nat \<Rightarrow> error + ('f frame \<times> 'f frame \<times> int)" where
  "normalize env sorteos premios numero_sorteo =
     (let sorteos_df = DataFrame sorteos;
          premios_df = DataFrame premios
      in ebind (normalize_premios env premios_df) (\<lambda>premios_df.
         ebind (normalize_sorteos env sorteos_df) (\<lambda>sorteos_df.
         ebind (derive_year sorteos_df numero_sorteo) (\<lambda>year.
         Inr (sorteos_df, premios_df, year)))))"

section \<open>The orchestrator (lines 77 to 243)\<close>

text \<open>The objects of the output buckets, by bucket and key, and the calls made to the
  storage helpers, in order.\<close>

datatype 'f event =
    ListProcessed string string
  | ListFiles string string
  | Download string string
  | Upload string string "'f frame"

record 'f world =
  store :: "((string \<times> string) \<times> 'f frame) list"
  calls :: "'f event list"

text \<open>The arguments of \<^verbatim>\<open>transform\<close> and the two module globals it reads.\<close>

record config =
  bucket_name :: string
  raw_prefix :: string
  simple_prefix :: string
  silver_prefix :: string
  partitioned_bucket :: string
  simple_bucket :: string

definition SILVER_PREFIX_DEFAULT :: string where
  "SILVER_PREFIX_DEFAULT = ''silver/''"

text \<open>Line 100: \<^verbatim>\<open>re.search(r"sorteo=(\d+)/", raw_file)\<close>, the leftmost match; the digits
  are matched greedily, and a shorter run could not be followed by the slash. Digits are
  the ASCII ones.\<close>

definition is_digit :: "char \<Rightarrow> bool" where
  "is_digit c = (c \<in> set ''0123456789'')"

definition match_sorteo_here :: "string \<Rightarrow> string option" where
  "match_sorteo_here s =
     (if take 7 s = ''sorteo='' then
        (let ds = takeWhile is_digit (drop 7 s);
             rest = dropWhile is_digit (drop 7 s)
         in if ds \<noteq> [] \<and> take 1 rest = ''/'' then Some ds else None)
      else None)"

fun re_search_sorteo :: "string \<Rightarrow> string option" where
  "re_search_sorteo [] = None"
| "re_search_sorteo (c # cs) =
     (case match_sorteo_here (c # cs) of
        Some ds \<Rightarrow> Some ds
      | None \<Rightarrow> re_search_sorteo cs)"

text \<open>Line 105: \<^verbatim>\<open>int(match.group(1))\<close>.\<close>

definition digit_val :: "char \<Rightarrow> nat" where
  "digit_val c = of_char c - 48"

definition int_of_digits :: "string \<Rightarrow> nat" where
  "int_of_digits ds = foldl (\<lambda>a c. 10 * a + digit_val c) 0 ds"

definition extract_sorteo :: "string \<Rightarrow> nat option" where
  "extract_sorteo raw_file = map_option int_of_digits (re_search_sorteo raw_file)"

text \<open>Modelled from the spec: \<^verbatim>\<open>list_processed_sorteos_in_partitioned_bucket\<close> is imported
  from the S3 helpers, which are not in the file; it "returns the set of draw numbers already
  present under the canonical output prefix", read here with the key pattern of the raw
  files.\<close>

definition list_processed_sorteos_in_partitioned_bucket ::
  "((string \<times> string) \<times> 'f frame) list \<Rightarrow> string \<Rightarrow> string \<Rightarrow> nat list" where
  "list_processed_sorteos_in_partitioned_bucket objects bucket prefix =
     List.map_filter
       (\<lambda>((b, k), _). if b = bucket \<and> take (length prefix) k = prefix then extract_sorteo k else None)
       objects"

text \<open>A call that may raise while the world changes: the new world, and the exception if
  one was raised.\<close>

fun sbind :: "'w \<times> error option \<Rightarrow> ('w \<Rightarrow> 'w \<times> error option) \<Rightarrow> 'w \<times> error option" where
  "sbind (w, Some e) f = (w, Some e)"
| "sbind (w, None) f = f w"

definition record_call :: "'f event \<Rightarrow> 'f world \<Rightarrow> 'f world" where
  "record_call ev w = w\<lparr>calls := calls w @ [ev]\<rparr>"

text \<open>\<^verbatim>\<open>upload_file_to_s3(local_path, bucket, key)\<close>; the local file holds the frame that
  \<^verbatim>\<open>to_parquet\<close> wrote.\<close>

definition upload_file_to_s3 ::
  "'f env \<Rightarrow> 'f frame \<Rightarrow> string \<Rightarrow> string \<Rightarrow> 'f world \<Rightarrow> 'f world \<times> error option" where
  "upload_file_to_s3 env payload bucket key w =
     (let w = record_call (Upload bucket key payload) w in
      if upload_fails env bucket key then (w, Some (StorageError key))
      else (w\<lparr>store := AList.update (bucket, key) payload (store w)\<rparr>, None))"

text \<open>Lines 224, 225 and 233 to 238: the keys of the outputs.\<close>

definition simple_key :: "config \<Rightarrow> string \<Rightarrow> nat \<Rightarrow> string" where
  "simple_key cfg dataset numero_sorteo =
     simple_prefix cfg @ dataset @ ''_'' @ show_nat numero_sorteo @ ''.parquet''"

definition partitioned_key :: "config \<Rightarrow> string \<Rightarrow> int \<Rightarrow> nat \<Rightarrow> string" where
  "partitioned_key cfg dataset year numero_sorteo =
     silver_prefix cfg @ dataset @ ''/year='' @ show_int year @ ''/sorteo=''
       @ show_nat numero_sorteo @ ''/'' @ dataset @ ''.parquet''"

text \<open>Lines 227 to 241: four uploads, one after the other.\<close>

definition upload_outputs ::
  "'f env \<Rightarrow> config \<Rightarrow> nat \<Rightarrow> int \<Rightarrow> 'f frame \<Rightarrow> 'f frame \<Rightarrow> 'f world \<Rightarrow> 'f world \<times> error option" where
  "upload_outputs env cfg numero_sorteo year sorteos_df premios_df w =
     sbind (upload_file_to_s3 env sorteos_df (simple_bucket cfg)
              (simple_key cfg ''sorteos'' numero_sorteo) w) (\<lambda>w.
     sbind (upload_file_to_s3 env premios_df (simple_bucket cfg)
              (simple_key cfg ''premios'' numero_sorteo) w) (\<lambda>w.
     sbind (upload_file_to_s3 env sorteos_df (partitioned_bucket cfg)
              (partitioned_key cfg ''sorteos'' year numero_sorteo) w) (\<lambda>w.
     upload_file_to_s3 env premios_df (partitioned_bucket cfg)
       (partitioned_key cfg ''premios'' year numero_sorteo) w)))"

text \<open>Lines 110 to 243: the body of the loop for a file that is neither malformed nor
  already processed.\<close>

definition read_and_normalize ::
  "'f env \<Rightarrow> config \<Rightarrow> nat \<Rightarrow> string \<Rightarrow> error + ('f frame \<times> 'f frame \<times> int)" where
  "read_and_normalize env cfg numero_sorteo raw_file =
     ebind (download_lines env (bucket_name cfg) raw_file) (\<lambda>lines.
     ebind (parse_file env lines) (\<lambda>(sorteos, premios).
     normalize env sorteos premios numero_sorteo))"

definition process_file ::
  "'f env \<Rightarrow> config \<Rightarrow> nat \<Rightarrow> string \<Rightarrow> 'f world \<Rightarrow> 'f world \<times> error option" where
  "process_file env cfg numero_sorteo raw_file w =
     (let w = record_call (Download (bucket_name cfg) raw_file) w in
      case read_and_normalize env cfg numero_sorteo raw_file of
        Inl e \<Rightarrow> (w, Some e)
      | Inr (sorteos_df, premios_df, year) \<Rightarrow>
          upload_outputs env cfg numero_sorteo year sorteos_df premios_df w)"

text \<open>Lines 98 to 243: the loop. Nothing catches an exception of the body, so the first
  one ends the loop and the call.\<close>

fun transform_files ::
  "'f env \<Rightarrow> config \<Rightarrow> nat list \<Rightarrow> string list \<Rightarrow> 'f world \<Rightarrow> 'f world \<times> error option" where
  "transform_files env cfg processed_sorteos [] w = (w, None)"
| "transform_files env cfg processed_sorteos (raw_file # raw_files) w =
     (case extract_sorteo raw_file of
        None \<Rightarrow> transform_files env cfg processed_sorteos raw_files w
      | Some numero_sorteo \<Rightarrow>
          if numero_sorteo \<in> set processed_sorteos
          then transform_files env cfg processed_sorteos raw_files w
          else sbind (process_file env cfg numero_sorteo raw_file w)
                 (transform_files env cfg processed_sorteos raw_files))"

text \<open>Lines 77 to 243: \<^verbatim>\<open>transform(bucket_name, raw_prefix, simple_prefix, silver_prefix)\<close>.\<close>

definition transform :: "'f env \<Rightarrow> config \<Rightarrow> 'f world \<Rightarrow> 'f world \<times> error option" where
  "transform env cfg w =
     (let processed_sorteos =
            list_processed_sorteos_in_partitioned_bucket (store w) (bucket_name cfg)
              (silver_prefix cfg @ ''sorteos/'');
          w = record_call (ListProcessed (bucket_name cfg) (silver_prefix cfg @ ''sorteos/'')) w;
          w = record_call (ListFiles (bucket_name cfg) (raw_prefix cfg)) w
      in case list_files_in_s3 env (bucket_name cfg) (raw_prefix cfg) of
           Inl e \<Rightarrow> (w, Some e)
         | Inr raw_files \<Rightarrow> transform_files env cfg processed_sorteos raw_files w)"

section \<open>A sample environment\<close>

text \<open>
  To run the model on concrete files, a small stand-in for the collaborators: raw files are
  \<open>key=value\<close> header lines, a line \<open>---\<close>, then prize lines
  \<open>number|letters|amount|vendor-city-department\<close>; numbers are decimal digits, optionally
  with a fractional part; floats are rationals; the raw bucket is a table from key to lines.
\<close>

definition sample_numeric_text :: "string \<Rightarrow> rat num option" where
  "sample_numeric_text t =
     (case split_on CHR ''.'' t of
        [a] \<Rightarrow> if a \<noteq> [] \<and> list_all is_digit a then Some (NInt (int (int_of_digits a))) else None
      | [a, b] \<Rightarrow>
          if a \<noteq> [] \<and> b \<noteq> [] \<and> list_all is_digit a \<and> list_all is_digit b
          then Some (NFloat (of_nat (int_of_digits a) + of_nat (int_of_digits b) / 10 ^ length b))
          else None
      | _ \<Rightarrow> None)"

definition sample_float_as_int :: "rat \<Rightarrow> int option" where
  "sample_float_as_int x = (if of_int (floor x) = x then Some (floor x) else None)"

definition sample_strptime_dmy :: "string \<Rightarrow> date option" where
  "sample_strptime_dmy t =
     (case split_on CHR ''/'' t of
        [d, m, y] \<Rightarrow>
          if list_all is_digit (d @ m @ y) \<and> length d \<in> {1, 2} \<and> length m \<in> {1, 2} \<and> length y = 4
             \<and> int_of_digits d \<in> {1..31} \<and> int_of_digits m \<in> {1..12}
          then Some (Date (int (int_of_digits y)) (int_of_digits m) (int_of_digits d))
          else None
      | _ \<Rightarrow> None)"

definition sample_str_upper :: "string \<Rightarrow> string" where
  "sample_str_upper t =
     map (\<lambda>c. case map_of (zip ''abcdefghijklmnopqrstuvwxyz'' ''ABCDEFGHIJKLMNOPQRSTUVWXYZ'') c of
                 None \<Rightarrow> c | Some u \<Rightarrow> u) t"

definition sample_split_header_body :: "string list \<Rightarrow> error + (string list \<times> string list)" where
  "sample_split_header_body lines =
     (if ''---'' \<in> set lines
      then Inr (takeWhile (\<lambda>l. l \<noteq> ''---'') lines, drop 1 (dropWhile (\<lambda>l. l \<noteq> ''---'') lines))
      else Inl (ParseError ''no header terminator''))"

definition sample_process_header :: "string list \<Rightarrow> error + rat pydict" where
  "sample_process_header header_lines =
     Inr (List.map_filter
            (\<lambda>l. case split_on CHR ''='' l of [k, v] \<Rightarrow> Some (k, Text v) | _ \<Rightarrow> None)
            header_lines)"

definition sample_process_body :: "string list \<Rightarrow> error + rat pydict list" where
  "sample_process_body body_lines =
     Inr (List.map_filter
            (\<lambda>l. case split_on CHR ''|'' l of
                    [n, ls, m, v] \<Rightarrow>
                      Some [(''numero_premiado'', Text n), (''letras'', Text ls),
                            (''monto'', Text m), (''vendido_por'', Text v)]
                  | _ \<Rightarrow> None)
            body_lines)"

definition sample_part :: "nat \<Rightarrow> rat cell \<Rightarrow> rat cell" where
  "sample_part j c =
     (case c of
        Text t \<Rightarrow> (let ps = split_on CHR ''-'' t in if j < length ps then Text (ps ! j) else Null)
      | _ \<Rightarrow> Null)"

definition sample_split_vendido_por_column :: "rat frame \<Rightarrow> error + rat frame" where
  "sample_split_vendido_por_column df =
     ebind (getcol df ''vendido_por'') (\<lambda>v.
       Inr (setcol ''departamento'' (map (sample_part 2) v)
             (setcol ''ciudad'' (map (sample_part 1) v)
               (setcol ''vendedor'' (map (sample_part 0) v) df))))"

definition sample_env :: "(string \<times> string list) list \<Rightarrow> (string \<times> string) list \<Rightarrow> rat env" where
  "sample_env raw_objects failing =
     \<lparr>split_header_body = sample_split_header_body,
      process_header = sample_process_header,
      process_body = sample_process_body,
      split_vendido_por_column = sample_split_vendido_por_column,
      list_files_in_s3 =
        (\<lambda>bucket prefix. Inr (filter (\<lambda>k. take (length prefix) k = prefix) (map fst raw_objects))),
      download_lines =
        (\<lambda>bucket key. case map_of raw_objects key of
                         None \<Rightarrow> Inl (StorageError key)
                       | Some lines \<Rightarrow> Inr lines),
      upload_fails = (\<lambda>bucket key. (bucket, key) \<in> set failing),
      numeric_text = sample_numeric_text,
      float_as_int = sample_float_as_int,
      int_as_float = of_int,
      float_zero = 0,
      strptime_dmy = sample_strptime_dmy,
      py_str = (\<lambda>c. ''?''),
      str_upper = sample_str_upper\<rparr>"

definition sample_config :: config where
  "sample_config =
     \<lparr>bucket_name = ''lake'', raw_prefix = ''raw/'', simple_prefix = ''flat/'',
      silver_prefix = SILVER_PREFIX_DEFAULT, partitioned_bucket = ''lake'',
      simple_bucket = ''simple''\<rparr>"

text \<open>The file of the end-to-end scenario, and one whose draw date is not DD/MM/YYYY.\<close>

definition file_1234 :: "string list" where
  "file_1234 =
     [''numero_sorteo=1234'', ''fecha_sorteo=01/06/2024'', ''fecha_caducidad=01/12/2024'',
      ''primer_premio=55555'', ''segundo_premio=4444'', ''tercer_premio=333'',
      ''reintegros=3,9'', ''---'', ''12345|AB|1000|TIENDA-de esta capital-N/A'']"

definition file_bad_date :: "string list" where
  "file_bad_date =
     [''numero_sorteo=1235'', ''fecha_sorteo=2024-06-08'', ''fecha_caducidad=01/12/2024'',
      ''primer_premio=55555'', ''segundo_premio=4444'', ''tercer_premio=333'',
      ''reintegros=3,9'', ''---'', ''12345|AB|1000|TIENDA-ZACAPA-ZACAPA'']"

definition empty_world :: "rat world" where
  "empty_world = \<lparr>store = [], calls = []\<rparr>"



text \<open>The parsed records of \<open>file_1234\<close>.\<close>

definition sample_header :: "rat pydict" where
  "sample_header =
     [(''numero_sorteo'', Text ''1234''), (''fecha_sorteo'', Text ''01/06/2024''),
      (''fecha_caducidad'', Text ''01/12/2024''), (''primer_premio'', Text ''55555''),
      (''segundo_premio'', Text ''4444''), (''tercer_premio'', Text ''333''),
      (''reintegros'', Text ''3,9'')]"

definition sample_premios :: "rat pydict list" where
  "sample_premios =
     [[(''numero_premiado'', Text ''12345''), (''letras'', Text ''AB''),
       (''monto'', Text ''1000''), (''vendido_por'', Text ''TIENDA-de esta capital-N/A''),
       (''numero_sorteo'', Text ''1234'')]]"

definition sample_split_frame :: "rat frame" where
  "sample_split_frame =
     \<lparr>nrows = 1,
      columns =
        [(''numero_premiado'', [Text ''12345'']),
         (''letras'', [Text ''AB'']), (''monto'', [Text ''1000'']),
         (''vendido_por'', [Text ''TIENDA-de esta capital-N/A'']),
         (''numero_sorteo'', [Text ''1234'']),
         (''vendedor'', [Text ''TIENDA'']),
         (''ciudad'', [Text ''de esta capital'']),
         (''departamento'', [Text ''N/A''])]\<rparr>"

definition sample_premios_out :: "rat frame" where
  "sample_premios_out =
     \<lparr>nrows = 1,
      columns =
        [(''numero_sorteo'', [IntV 1234]),
         (''numero_premiado'', [IntV 12345]), (''letras'', [Text ''AB'']),
         (''monto'', [FloatV 1000]), (''vendedor'', [Text ''TIENDA'']),
         (''ciudad'', [Text ''de esta capital'']),
         (''departamento'', [Text ''GUATEMALA''])]\<rparr>"

definition sample_sorteos_out :: "rat frame" where
  "sample_sorteos_out =
     \<lparr>nrows = 1,
      columns =
        [(''numero_sorteo'', [IntV 1234]),
         (''fecha_sorteo'', [DateV (Date 2024 6 1)]),
         (''fecha_caducidad'', [DateV (Date 2024 12 1)]),
         (''primer_premio'', [IntV 55555]),
         (''segundo_premio'', [IntV 4444]),
         (''tercer_premio'', [IntV 333]),
         (''reintegro_primer_premio'', [IntV 3]),
         (''reintegro_segundo_premio'', [IntV 9]),
         (''reintegro_tercer_premio'', [Null])]\<rparr>"

section \<open>Notions used to state the properties\<close>

text \<open>The placeholder texts of line 148.\<close>

definition placeholders :: "string list" where
  "placeholders = [''N/A'', ''n/a'', []]"




text \<open>What one row of a coercion helper does, for the proofs.\<close>

definition to_int64_cell :: "'f env \<Rightarrow> int option \<Rightarrow> 'f cell \<Rightarrow> error + 'f cell" where
  "to_int64_cell env dflt c =
     ebind (astype_Int64_cell env (to_numeric_cell env c)) (\<lambda>x.
       case dflt of
         None \<Rightarrow> Inr x
       | Some d \<Rightarrow> astype_int64_cell (if x = Null then IntV d else x))"


text \<open>Every column of a frame has as many cells as the frame has rows.\<close>

definition wf_frame :: "'f frame \<Rightarrow> bool" where
  "wf_frame df = list_all (\<lambda>(c, s). length s = nrows df) (columns df)"

text \<open>The three refund columns, slot \<open>j\<close> of a comma-separated text, and the cells of a
  nullable integer column.\<close>

definition refund_columns :: "string list" where
  "refund_columns =
     [''reintegro_primer_premio'', ''reintegro_segundo_premio'', ''reintegro_tercer_premio'']"













text \<open>A header is well formed when it declares a draw number that is not a placeholder.\<close>

definition well_formed_header :: "'f pydict \<Rightarrow> bool" where
  "well_formed_header header =
     (case map_of header ''numero_sorteo'' of
        Some (Text t) \<Rightarrow> t \<notin> set placeholders
      | _ \<Rightarrow> False)"

text \<open>The cell of a field of the header, null when the header lacks the field; the upload
  calls of one file, in the order of lines 227 to 241; the files that the loop does not skip;
  the listings of processed draws among the calls.\<close>

definition header_cell :: "'f pydict \<Rightarrow> string \<Rightarrow> 'f cell" where
  "header_cell header c = (case map_of header c of None \<Rightarrow> Null | Some v \<Rightarrow> v)"

definition planned_uploads ::
  "config \<Rightarrow> nat \<Rightarrow> int \<Rightarrow> 'f frame \<Rightarrow> 'f frame \<Rightarrow> 'f event list" where
  "planned_uploads cfg numero_sorteo year sorteos_df premios_df =
     [Upload (simple_bucket cfg) (simple_key cfg ''sorteos'' numero_sorteo) sorteos_df,
      Upload (simple_bucket cfg) (simple_key cfg ''premios'' numero_sorteo) premios_df,
      Upload (partitioned_bucket cfg) (partitioned_key cfg ''sorteos'' year numero_sorteo) sorteos_df,
      Upload (partitioned_bucket cfg) (partitioned_key cfg ''premios'' year numero_sorteo) premios_df]"

definition to_process :: "nat list \<Rightarrow> string \<Rightarrow> bool" where
  "to_process processed_sorteos raw_file =
     (case extract_sorteo raw_file of
        None \<Rightarrow> False
      | Some numero_sorteo \<Rightarrow> numero_sorteo \<notin> set processed_sorteos)"

definition listings :: "'f event list \<Rightarrow> nat" where
  "listings evs = length (filter (\<lambda>ev. case ev of ListProcessed b p \<Rightarrow> True | _ \<Rightarrow> False) evs)"

definition object_keys :: "'f world \<Rightarrow> (string \<times> string) set" where
  "object_keys w = set (map fst (store w))"

text \<open>A file stored under draw 1234 whose header declares draw 9999.\<close>

definition file_mismatch :: "string list" where
  "file_mismatch =
     [''numero_sorteo=9999'', ''fecha_sorteo=01/06/2024'', ''fecha_caducidad=01/12/2024'',
      ''primer_premio=55555'', ''segundo_premio=4444'', ''tercer_premio=333'',
      ''reintegros=3,9'', ''---'', ''12345|AB|1000|TIENDA-ZACAPA-ZACAPA'']"

definition key_1234 :: string where
  "key_1234 = ''raw/year=2024/sorteo=1234/1234.txt''"

definition key_1235 :: string where
  "key_1235 = ''raw/year=2024/sorteo=1235/1235.txt''"

text \<open>A raw bucket with the file of the bad date listed first, and its parsed records.\<close>

definition sample_raw :: "(string \<times> string list) list" where
  "sample_raw = [(key_1235, file_bad_date), (key_1234, file_1234)]"

definition sample_header_bad_date :: "rat pydict" where
  "sample_header_bad_date =
     [(''numero_sorteo'', Text ''1235''), (''fecha_sorteo'', Text ''2024-06-08''),
      (''fecha_caducidad'', Text ''01/12/2024''), (''primer_premio'', Text ''55555''),
      (''segundo_premio'', Text ''4444''), (''tercer_premio'', Text ''333''),
      (''reintegros'', Text ''3,9'')]"

definition sample_premios_bad_date :: "rat pydict list" where
  "sample_premios_bad_date =
     [[(''numero_premiado'', Text ''12345''), (''letras'', Text ''AB''),
       (''monto'', Text ''1000''), (''vendido_por'', Text ''TIENDA-ZACAPA-ZACAPA''),
       (''numero_sorteo'', Text ''1235'')]]"

text \<open>The effect of one upload call on the objects, and whether the call succeeds.\<close>

definition put_object ::
  "((string \<times> string) \<times> 'f frame) list \<Rightarrow> 'f event \<Rightarrow> ((string \<times> string) \<times> 'f frame) list" where
  "put_object objects ev =
     (case ev of Upload bucket key payload \<Rightarrow> AList.update (bucket, key) payload objects
      | _ \<Rightarrow> objects)"

definition upload_succeeds :: "'f env \<Rightarrow> 'f event \<Rightarrow> bool" where
  "upload_succeeds env ev =
     (case ev of Upload bucket key payload \<Rightarrow> \<not> upload_fails env bucket key | _ \<Rightarrow> True)"

text \<open>The environment in which the last upload of draw 1234 fails.\<close>

definition sample_env_failing :: "rat env" where
  "sample_env_failing =
     sample_env [(key_1234, file_1234)]
       [(''lake'', ''silver/premios/year=2024/sorteo=1234/premios.parquet'')]"

text \<open>The parsed and normalized records of \<open>file_mismatch\<close>.\<close>

definition mismatch_header :: "rat pydict" where
  "mismatch_header = (''numero_sorteo'', Text ''9999'') # tl sample_header"

definition mismatch_premios :: "rat pydict list" where
  "mismatch_premios =
     [[(''numero_premiado'', Text ''12345''), (''letras'', Text ''AB''),
       (''monto'', Text ''1000''), (''vendido_por'', Text ''TIENDA-ZACAPA-ZACAPA''),
       (''numero_sorteo'', Text ''9999'')]]"

definition mismatch_sorteos_out :: "rat frame" where
  "mismatch_sorteos_out = setcol ''numero_sorteo'' [IntV 9999] sample_sorteos_out"

definition mismatch_premios_out :: "rat frame" where
  "mismatch_premios_out =
     \<lparr>nrows = 1,
      columns =
        [(''numero_sorteo'', [IntV 9999]),
         (''numero_premiado'', [IntV 12345]), (''letras'', [Text ''AB'']),
         (''monto'', [FloatV 1000]), (''vendedor'', [Text ''TIENDA'']),
         (''ciudad'', [Text ''ZACAPA'']),
         (''departamento'', [Text ''ZACAPA''])]\<rparr>"

definition sample_env_mismatch :: "rat env" where
  "sample_env_mismatch = sample_env [(key_1234, file_mismatch)] []"

text \<open>A raw bucket holding the file of draw 1234 alone, and the world after a first run
  over it.\<close>

definition sample_env_one :: "rat env" where
  "sample_env_one = sample_env [(key_1234, file_1234)] []"

definition world_after_first_run :: "rat world" where
  "world_after_first_run =
     \<lparr>store = foldl put_object []
                (planned_uploads sample_config 1234 2024 sample_sorteos_out sample_premios_out),
      calls = [ListProcessed ''lake'' ''silver/sorteos/'', ListFiles ''lake'' ''raw/'',
               Download ''lake'' key_1234]
              @ planned_uploads sample_config 1234 2024 sample_sorteos_out sample_premios_out\<rparr>"

section \<open>Basic facts\<close>

lemma ebind_Inr_iff: "ebind m f = Inr y \<longleftrightarrow> (\<exists>x. m = Inr x \<and> f x = Inr y)"
  by (cases m) auto

lemma ebind_Inl_iff: "ebind m f = Inl e \<longleftrightarrow> m = Inl e \<or> (\<exists>x. m = Inr x \<and> f x = Inl e)"
  by (cases m) auto

lemma ebind_weak_cong: "m = m' \<Longrightarrow> ebind m f = ebind m' f"
  by simp

lemma sbind_weak_cong: "m = m' \<Longrightarrow> sbind m f = sbind m' f"
  by simp

lemma emap_Inr_iff: "emap f xs = Inr ys \<longleftrightarrow> list_all2 (\<lambda>x y. f x = Inr y) xs ys"
  by (induction xs arbitrary: ys) (auto simp: ebind_Inr_iff list_all2_Cons1)

lemma getcol_setcol: "getcol (setcol c s df) c' = (if c' = c then Inr s else getcol df c')"
  by (simp add: getcol_def setcol_def update_conv')

lemma nrows_setcol [simp]: "nrows (setcol c s df) = nrows df"
  by (simp add: setcol_def)

lemma assign_from_Inr_iff:
  "assign_from c f df = Inr df' \<longleftrightarrow>
     (\<exists>s s'. getcol df c = Inr s \<and> f s = Inr s' \<and> df' = setcol c s' df)"
  by (auto simp: assign_from_def ebind_Inr_iff)

lemma getcol_replace_sentinels:
  "getcol (replace_sentinels df) c =
     (case getcol df c of Inl e \<Rightarrow> Inl e | Inr s \<Rightarrow> Inr (map replace_cell s))"
  by (simp add: getcol_def replace_sentinels_def map_of_map split: option.splits)

lemma to_int64_cells:
  "to_int64 env s dflt = Inr s' \<longleftrightarrow> list_all2 (\<lambda>c c'. to_int64_cell env dflt c = Inr c') s s'"
proof -
  let ?A = "\<lambda>c x. astype_Int64_cell env (to_numeric_cell env c) = Inr x"
  let ?B = "\<lambda>x c'. (case dflt of None \<Rightarrow> Inr x
                      | Some d \<Rightarrow> astype_int64_cell (if x = Null then IntV d else x)) = Inr c'"
  have cell: "(\<lambda>c c'. to_int64_cell env dflt c = Inr c') = ?A OO ?B"
    by (auto simp: to_int64_cell_def ebind_Inr_iff fun_eq_iff)
  have "to_int64 env s dflt = Inr s' \<longleftrightarrow> (\<exists>s1. list_all2 ?A s s1 \<and> list_all2 ?B s1 s')"
    by (cases dflt)
       (auto simp: to_int64_def to_numeric_def astype_Int64_def astype_int64_def fillna_def
          ebind_Inr_iff emap_Inr_iff list_all2_map1 list.rel_eq)
  also have "\<dots> \<longleftrightarrow> list_all2 (?A OO ?B) s s'"
    by (auto simp: list.rel_compp)
  finally show ?thesis by (simp add: cell)
qed





lemma run_steps_Cons_Inr:
  "run_steps (f # fs) x = Inr y \<longleftrightarrow> (\<exists>x'. f x = Inr x' \<and> run_steps fs x' = Inr y)"
  by (simp add: ebind_Inr_iff)

lemma run_assign_other:
  "run_steps (map (\<lambda>(c, f). assign_from c f) cfs) df = Inr out \<Longrightarrow> c \<notin> fst ` set cfs
     \<Longrightarrow> getcol out c = getcol df c"
proof (induction cfs arbitrary: df)
  case Nil
  then show ?case by simp
next
  case (Cons cf cfs)
  obtain c0 f0 where cf: "cf = (c0, f0)" by (cases cf)
  from Cons.prems(1) obtain df1 where
    step: "assign_from c0 f0 df = Inr df1" and
    rest: "run_steps (map (\<lambda>(c, f). assign_from c f) cfs) df1 = Inr out"
    by (auto simp: cf ebind_Inr_iff)
  from Cons.prems(2) have ne: "c \<noteq> c0" and notin: "c \<notin> fst ` set cfs"
    by (auto simp: cf)
  from step ne have "getcol df1 c = getcol df c"
    by (auto simp: assign_from_Inr_iff getcol_setcol)
  with Cons.IH [OF rest notin] show ?case by simp
qed

lemma run_assign_col:
  "run_steps (map (\<lambda>(c, f). assign_from c f) cfs) df = Inr out \<Longrightarrow> distinct (map fst cfs)
     \<Longrightarrow> (c, f) \<in> set cfs
     \<Longrightarrow> \<exists>s s'. getcol df c = Inr s \<and> f s = Inr s' \<and> getcol out c = Inr s'"
proof (induction cfs arbitrary: df)
  case Nil
  then show ?case by simp
next
  case (Cons cf cfs)
  obtain c0 f0 where cf: "cf = (c0, f0)" by (cases cf)
  from Cons.prems(1) obtain df1 where
    step: "assign_from c0 f0 df = Inr df1" and
    rest: "run_steps (map (\<lambda>(c, f). assign_from c f) cfs) df1 = Inr out"
    by (auto simp: cf ebind_Inr_iff)
  from step obtain s0 s0' where
    s0: "getcol df c0 = Inr s0" "f0 s0 = Inr s0'" "df1 = setcol c0 s0' df"
    by (auto simp: assign_from_Inr_iff)
  from Cons.prems(2) have c0: "c0 \<notin> fst ` set cfs" and dist: "distinct (map fst cfs)"
    by (auto simp: cf)
  show ?case
  proof (cases "(c, f) = (c0, f0)")
    case True
    from run_assign_other [OF rest c0] s0 have "getcol out c0 = Inr s0'"
      by (simp add: getcol_setcol)
    with True s0 show ?thesis by auto
  next
    case False
    with Cons.prems(3) have mem: "(c, f) \<in> set cfs" by (auto simp: cf)
    with c0 have "c \<noteq> c0" by force
    with s0 have "getcol df1 c = getcol df c" by (simp add: getcol_setcol)
    with Cons.IH [OF rest dist mem] show ?thesis by simp
  qed
qed

lemma premios_steps:
  "enforce_premios_schema env df =
     run_steps (map (\<lambda>(c, f). assign_from c f)
       [(''numero_sorteo'', \<lambda>s. to_int64 env s (Some 0)),
        (''numero_premiado'', \<lambda>s. to_int64 env s None),
        (''monto'', \<lambda>s. to_float64 env s (float_zero env)),
        (''letras'', to_string env),
        (''vendedor'', to_string env),
        (''ciudad'', to_string env),
        (''departamento'', to_string env)]) (replace_sentinels df)"
  by (simp add: enforce_premios_schema_def)

lemma sorteos_steps:
  "enforce_sorteos_schema env df =
     run_steps (map (\<lambda>(c, f). assign_from c f)
       [(''reintegro_primer_premio'', \<lambda>s. to_int64 env s None),
        (''reintegro_segundo_premio'', \<lambda>s. to_int64 env s None),
        (''reintegro_tercer_premio'', \<lambda>s. to_int64 env s None),
        (''numero_sorteo'', \<lambda>s. to_int64 env s (Some 0)),
        (''primer_premio'', \<lambda>s. to_int64 env s None),
        (''segundo_premio'', \<lambda>s. to_int64 env s None),
        (''tercer_premio'', \<lambda>s. to_int64 env s None),
        (''fecha_sorteo'', \<lambda>s. Inr (to_datetime env s)),
        (''fecha_caducidad'', \<lambda>s. Inr (to_datetime env s))]) df"
  by (simp add: enforce_sorteos_schema_def)

lemma run_assign_lookup:
  assumes "run_steps (map (\<lambda>(c, f). assign_from c f) cfs) df = Inr out"
    and "distinct (map fst cfs)" and "map_of cfs c = Some f"
  shows "\<exists>s s'. getcol df c = Inr s \<and> f s = Inr s' \<and> getcol out c = Inr s'"
  using run_assign_col [OF assms(1,2) map_of_SomeD [OF assms(3)]] .

lemma premios_schema_col:
  assumes "enforce_premios_schema env df = Inr out"
    and "map_of
       [(''numero_sorteo'', \<lambda>s. to_int64 env s (Some 0)),
        (''numero_premiado'', \<lambda>s. to_int64 env s None),
        (''monto'', \<lambda>s. to_float64 env s (float_zero env)),
        (''letras'', to_string env),
        (''vendedor'', to_string env),
        (''ciudad'', to_string env),
        (''departamento'', to_string env)] c = Some f"
  shows "\<exists>s s'. getcol df c = Inr s \<and> f (map replace_cell s) = Inr s' \<and> getcol out c = Inr s'"
proof -
  from run_assign_lookup [OF assms(1) [unfolded premios_steps] _ assms(2)]
  obtain s s' where "getcol (replace_sentinels df) c = Inr s" "f s = Inr s'" "getcol out c = Inr s'"
    by auto
  then show ?thesis
    by (auto simp: getcol_replace_sentinels split: sum.splits)
qed

lemma sorteos_schema_col:
  assumes "enforce_sorteos_schema env df = Inr out"
    and "map_of
       [(''reintegro_primer_premio'', \<lambda>s. to_int64 env s None),
        (''reintegro_segundo_premio'', \<lambda>s. to_int64 env s None),
        (''reintegro_tercer_premio'', \<lambda>s. to_int64 env s None),
        (''numero_sorteo'', \<lambda>s. to_int64 env s (Some 0)),
        (''primer_premio'', \<lambda>s. to_int64 env s None),
        (''segundo_premio'', \<lambda>s. to_int64 env s None),
        (''tercer_premio'', \<lambda>s. to_int64 env s None),
        (''fecha_sorteo'', \<lambda>s. Inr (to_datetime env s)),
        (''fecha_caducidad'', \<lambda>s. Inr (to_datetime env s))] c = Some f"
  shows "\<exists>s s'. getcol df c = Inr s \<and> f s = Inr s' \<and> getcol out c = Inr s'"
  by (rule run_assign_lookup [OF assms(1) [unfolded sorteos_steps] _ assms(2)]) simp

lemma premios_int_default:
  assumes "enforce_premios_schema env df = Inr out"
  shows "\<exists>s s'. getcol df ''numero_sorteo'' = Inr s
           \<and> to_int64 env (map replace_cell s) (Some 0) = Inr s'
           \<and> getcol out ''numero_sorteo'' = Inr s'"
  by (rule premios_schema_col [OF assms]) simp



lemma premios_text:
  assumes "enforce_premios_schema env df = Inr out"
    and "c \<in> {''letras'', ''vendedor'', ''ciudad'', ''departamento''}"
  shows "\<exists>s. getcol df c = Inr s
           \<and> getcol out c = Inr (astype_string env (map replace_cell s))"
proof -
  from assms(2) have "map_of
       [(''numero_sorteo'', \<lambda>s. to_int64 env s (Some 0)),
        (''numero_premiado'', \<lambda>s. to_int64 env s None),
        (''monto'', \<lambda>s. to_float64 env s (float_zero env)),
        (''letras'', to_string env),
        (''vendedor'', to_string env),
        (''ciudad'', to_string env),
        (''departamento'', to_string env)] c = Some (to_string env)"
    by auto
  from premios_schema_col [OF assms(1) this] show ?thesis
    by (auto simp: to_string_def)
qed

lemma sorteos_int_default:
  assumes "enforce_sorteos_schema env df = Inr out"
  shows "\<exists>s s'. getcol df ''numero_sorteo'' = Inr s
           \<and> to_int64 env s (Some 0) = Inr s'
           \<and> getcol out ''numero_sorteo'' = Inr s'"
  by (rule sorteos_schema_col [OF assms]) simp


lemma sorteos_dates:
  assumes "enforce_sorteos_schema env df = Inr out"
    and "c \<in> {''fecha_sorteo'', ''fecha_caducidad''}"
  shows "\<exists>s. getcol df c = Inr s \<and> getcol out c = Inr (to_datetime env s)"
proof -
  from assms(2) have "map_of
       [(''reintegro_primer_premio'', \<lambda>s. to_int64 env s None),
        (''reintegro_segundo_premio'', \<lambda>s. to_int64 env s None),
        (''reintegro_tercer_premio'', \<lambda>s. to_int64 env s None),
        (''numero_sorteo'', \<lambda>s. to_int64 env s (Some 0)),
        (''primer_premio'', \<lambda>s. to_int64 env s None),
        (''segundo_premio'', \<lambda>s. to_int64 env s None),
        (''tercer_premio'', \<lambda>s. to_int64 env s None),
        (''fecha_sorteo'', \<lambda>s. Inr (to_datetime env s)),
        (''fecha_caducidad'', \<lambda>s. Inr (to_datetime env s))] c = Some (\<lambda>s. Inr (to_datetime env s))"
    by auto
  from sorteos_schema_col [OF assms(1) this] show ?thesis by auto
qed






subsection \<open>Running the model on the sample environment\<close>

lemmas frame_defs =
  DataFrame_def first_seen_def getcol_def setcol_def setcol_scalar_def
  assign_from_def select_def loc_set_def drop_column_def replace_cell_def replace_sentinels_def

lemmas pandas_defs =
  to_numeric_cell_def to_numeric_def astype_Int64_cell_def astype_Int64_def fillna_def
  astype_int64_cell_def astype_int64_def astype_float64_cell_def astype_float64_def
  astype_string_cell_def astype_string_def to_datetime_cell_def to_datetime_def
  to_int64_def to_float64_def to_string_def

lemmas normalize_defs =
  premios_columns_def str_upper_series_def eq_series_def capital_override_def
  enforce_premios_schema_def normalize_premios_def str_split_cell_def str_split_expand_def
  pad_columns.simps split_reintegros_def enforce_sorteos_schema_def normalize_sorteos_def
  digit_char_def show_nat.simps show_int_def invalid_fecha_sorteo_def derive_year_def attach_numero_sorteo_def
  parse_file_def normalize_def

lemmas orchestrator_defs =
  SILVER_PREFIX_DEFAULT_def is_digit_def match_sorteo_here_def digit_val_def int_of_digits_def
  extract_sorteo_def list_processed_sorteos_in_partitioned_bucket_def record_call_def
  upload_file_to_s3_def simple_key_def partitioned_key_def upload_outputs_def
  read_and_normalize_def process_file_def transform_def List.map_filter_def

lemmas sample_defs =
  sample_numeric_text_def sample_float_as_int_def sample_strptime_dmy_def sample_str_upper_def
  sample_split_header_body_def sample_process_header_def sample_process_body_def sample_part_def
  sample_split_vendido_por_column_def sample_env_def sample_config_def file_1234_def
  file_mismatch_def key_1234_def key_1235_def
  file_bad_date_def empty_world_def




lemma wf_frame_length: "wf_frame df \<Longrightarrow> getcol df c = Inr s \<Longrightarrow> length s = nrows df"
  by (auto simp: wf_frame_def getcol_def list_all_iff split: option.splits dest!: map_of_SomeD)

lemma select_columns_Inr:
  "select_columns cs df = Inr sel \<Longrightarrow>
     map fst sel = cs \<and> (\<forall>c. map_of sel c = (if c \<in> set cs then map_of (columns df) c else None))"
proof (induction cs arbitrary: sel)
  case Nil
  then show ?case by simp
next
  case (Cons c cs)
  from Cons.prems obtain s rest where
    s: "getcol df c = Inr s" and rest: "select_columns cs df = Inr rest" and sel: "sel = (c, s) # rest"
    by (auto simp: ebind_Inr_iff)
  from s have "map_of (columns df) c = Some s"
    by (simp add: getcol_def split: option.splits)
  with Cons.IH [OF rest] sel show ?case by auto
qed

lemma getcol_select:
  "select cs df = Inr df' \<Longrightarrow> c \<in> set cs \<Longrightarrow> getcol df' c = getcol df c"
  by (auto simp: select_def ebind_Inr_iff getcol_def dest!: select_columns_Inr)


lemma getcol_loc_set_other:
  "c' \<noteq> c \<Longrightarrow> getcol (loc_set msk c v df) c' = getcol df c'"
  by (simp add: loc_set_def getcol_setcol split: option.splits)

lemma getcol_loc_set_same:
  "getcol (loc_set msk c v df) c =
     Inr (case getcol df c of
            Inl e \<Rightarrow> map (\<lambda>m. if m then v else Null) msk
          | Inr s \<Rightarrow> map (\<lambda>(m, x). if m then v else x) (zip msk s))"
proof (cases "map_of (columns df) c")
  case None
  then show ?thesis by (simp add: loc_set_def getcol_setcol) (simp add: getcol_def)
next
  case (Some s)
  then show ?thesis by (simp add: loc_set_def getcol_setcol) (simp add: getcol_def)
qed

lemma capital_override_Inr:
  "capital_override env df = Inr df' \<longleftrightarrow>
     (\<exists>ciudad. getcol df ''ciudad'' = Inr ciudad \<and>
        df' = loc_set (eq_series (Text ''DE ESTA CAPITAL'')
                         (str_upper_series env (fillna (Text []) ciudad)))
                ''departamento'' (Text ''GUATEMALA'') df)"
  by (auto simp: capital_override_def ebind_Inr_iff)

lemma normalize_premios_Inr:
  "normalize_premios env premios_df = Inr out \<longleftrightarrow>
     (\<exists>df df1 df2. split_vendido_por_column env premios_df = Inr df
        \<and> capital_override env df = Inr df1
        \<and> select premios_columns df1 = Inr df2
        \<and> enforce_premios_schema env df2 = Inr out)"
  by (simp add: normalize_premios_def ebind_Inr_iff)

text \<open>
  Claim C5. In the frame that the vendor-field split returns, take a row whose city is a
  text that upper-cases to DE ESTA CAPITAL. In the normalized prize records the department
  of that row is GUATEMALA, whatever department the split produced (or none): the override
  reads the city of the split and is kept by the placeholder replacement and by the cast to
  string that come after it. A null city is compared as the empty text and raises nothing.
\<close>

theorem capital_department_override:
  assumes "normalize_premios env premios_df = Inr out"
    and "split_vendido_por_column env premios_df = Inr df"
    and "wf_frame df"
    and "getcol df ''ciudad'' = Inr ciudad"
    and "i < nrows df"
    and "ciudad ! i = Text t"
    and "str_upper env t = ''DE ESTA CAPITAL''"
  shows "\<exists>departamento. getcol out ''departamento'' = Inr departamento
           \<and> length departamento = nrows df
           \<and> departamento ! i = Text ''GUATEMALA''"
proof -
  let ?msk = "eq_series (Text ''DE ESTA CAPITAL'') (str_upper_series env (fillna (Text []) ciudad))"
  let ?df1 = "loc_set ?msk ''departamento'' (Text ''GUATEMALA'') df"
  from assms(1,2,4) obtain df2 where
    sel: "select premios_columns ?df1 = Inr df2" and
    enf: "enforce_premios_schema env df2 = Inr out"
    by (auto simp: normalize_premios_Inr capital_override_Inr)
  have len: "length ciudad = nrows df"
    by (rule wf_frame_length [OF assms(3,4)])
  have msk_len: "length ?msk = nrows df"
    by (simp add: eq_series_def str_upper_series_def fillna_def len)
  have msk_i: "?msk ! i"
    using assms(5,6,7) len
    by (simp add: eq_series_def str_upper_series_def fillna_def)
  obtain d1 where d1: "getcol ?df1 ''departamento'' = Inr d1"
    and d1_len: "length d1 = nrows df" and d1_i: "d1 ! i = Text ''GUATEMALA''"
  proof (cases "getcol df ''departamento''")
    case (Inl e)
    then have "getcol ?df1 ''departamento'' = Inr (map (\<lambda>m. if m then Text ''GUATEMALA'' else Null) ?msk)"
      by (simp add: getcol_loc_set_same)
    moreover have "map (\<lambda>m. if m then Text ''GUATEMALA'' else Null) ?msk ! i = Text ''GUATEMALA''"
      using msk_i msk_len assms(5) by simp
    ultimately show ?thesis
      using that msk_len by simp
  next
    case (Inr s)
    then have "length s = nrows df"
      by (rule wf_frame_length [OF assms(3)])
    moreover from Inr have "getcol ?df1 ''departamento''
        = Inr (map (\<lambda>(m, x). if m then Text ''GUATEMALA'' else x) (zip ?msk s))"
      by (simp add: getcol_loc_set_same)
    moreover have "map (\<lambda>(m, x). if m then Text ''GUATEMALA'' else x) (zip ?msk s) ! i
        = Text ''GUATEMALA''"
      using msk_i msk_len assms(5) \<open>length s = nrows df\<close> by simp
    ultimately show ?thesis
      using that msk_len by simp
  qed
  have "getcol df2 ''departamento'' = Inr d1"
    using getcol_select [OF sel, of "''departamento''"] d1 by (simp add: premios_columns_def)
  with premios_text [OF enf, of "''departamento''"]
  have out: "getcol out ''departamento'' = Inr (astype_string env (map replace_cell d1))"
    by auto
  have "astype_string env (map replace_cell d1) ! i = Text ''GUATEMALA''"
    using d1_i d1_len assms(5)
    by (simp add: astype_string_def astype_string_cell_def replace_cell_def)
  with out d1_len show ?thesis
    by (simp add: astype_string_def)
qed

lemmas sample_data_defs =
  sample_header_def sample_premios_def sample_split_frame_def sample_premios_out_def
  sample_sorteos_out_def

lemma sample_parse:
  "parse_file (sample_env raw failing) file_1234 = Inr ([sample_header], sample_premios)"
  by (simp add: sample_data_defs frame_defs pandas_defs normalize_defs orchestrator_defs
        sample_defs cong: ebind_weak_cong)

lemma sample_split:
  "split_vendido_por_column (sample_env raw failing) (DataFrame sample_premios)
     = Inr sample_split_frame"
  by (simp add: sample_data_defs frame_defs pandas_defs normalize_defs orchestrator_defs
        sample_defs cong: ebind_weak_cong)

lemma sample_normalize_premios:
  "normalize_premios (sample_env raw failing) (DataFrame sample_premios) = Inr sample_premios_out"
  by (simp add: sample_data_defs frame_defs pandas_defs normalize_defs orchestrator_defs
        sample_defs cong: ebind_weak_cong)

lemma sample_normalize_sorteos:
  "normalize_sorteos (sample_env raw failing) (DataFrame [sample_header]) = Inr sample_sorteos_out"
  by (simp add: sample_data_defs frame_defs pandas_defs normalize_defs orchestrator_defs
        sample_defs cong: ebind_weak_cong)

theorem capital_department_override_witness:
  "normalize_premios (sample_env [] []) (DataFrame sample_premios) = Inr sample_premios_out
   \<and> split_vendido_por_column (sample_env [] []) (DataFrame sample_premios) = Inr sample_split_frame
   \<and> getcol sample_split_frame ''ciudad'' = Inr [Text ''de esta capital'']
   \<and> getcol sample_split_frame ''departamento'' = Inr [Text ''N/A'']
   \<and> (\<exists>departamento. getcol sample_premios_out ''departamento'' = Inr departamento
         \<and> length departamento = nrows sample_split_frame
         \<and> departamento ! 0 = Text ''GUATEMALA'')"
proof -
  have wf: "wf_frame sample_split_frame"
    by (simp add: wf_frame_def sample_split_frame_def)
  have ciudad: "getcol sample_split_frame ''ciudad'' = Inr [Text ''de esta capital'']"
    by (simp add: getcol_def sample_split_frame_def)
  have dep: "getcol sample_split_frame ''departamento'' = Inr [Text ''N/A'']"
    by (simp add: getcol_def sample_split_frame_def)
  have row: "0 < nrows sample_split_frame"
    by (simp add: sample_split_frame_def)
  have upper: "str_upper (sample_env [] []) ''de esta capital'' = ''DE ESTA CAPITAL''"
    by (simp add: sample_env_def sample_str_upper_def)
  from capital_department_override [OF sample_normalize_premios sample_split wf ciudad row _ upper]
    sample_normalize_premios sample_split ciudad dep
  show ?thesis by simp
qed

lemma set_first_seen [simp]: "set (first_seen xs) = set xs"
  by (simp add: first_seen_def)

lemma getcol_DataFrame:
  "getcol (DataFrame rows) c =
     (if \<exists>r \<in> set rows. map_of r c \<noteq> None
      then Inr (map (\<lambda>r. case map_of r c of None \<Rightarrow> Null | Some v \<Rightarrow> v) rows)
      else Inl (KeyError c))"
proof -
  have "c \<in> set (first_seen (concat (map (map fst) rows))) \<longleftrightarrow> (\<exists>r \<in> set rows. map_of r c \<noteq> None)"
    by (auto simp: map_of_eq_None_iff image_iff)
  then show ?thesis
    by (auto simp: getcol_def DataFrame_def map_of_map_restrict restrict_map_def)
qed

lemma getcol_DataFrame_single:
  "getcol (DataFrame [header]) c =
     (case map_of header c of None \<Rightarrow> Inl (KeyError c) | Some v \<Rightarrow> Inr [v])"
  by (auto simp: getcol_DataFrame split: option.splits)

lemma nrows_DataFrame [simp]: "nrows (DataFrame rows) = length rows"
  by (simp add: DataFrame_def)

lemma getcol_drop_column:
  "getcol (drop_column c df) c' = (if c' = c then Inl (KeyError c) else getcol df c')"
  by (simp add: getcol_def drop_column_def delete_conv')

lemma getcol_setcol_scalar:
  "getcol (setcol_scalar c v df) c' = (if c' = c then Inr (replicate (nrows df) v) else getcol df c')"
  by (simp add: setcol_scalar_def getcol_setcol)

lemma nrows_setcol_scalar [simp]: "nrows (setcol_scalar c v df) = nrows df"
  by (simp add: setcol_scalar_def)



lemma pad_columns_length: "3 \<le> length (pad_columns n cols)"
  by (induction n cols rule: pad_columns.induct) (subst pad_columns.simps, simp)
































lemma getcol_split_reintegros_other:
  assumes "c \<notin> set (''reintegros'' # refund_columns)"
  shows "getcol (split_reintegros env df) c = getcol df c"
  using assms
  by (cases "map_of (columns df) ''reintegros''")
     (simp_all add: split_reintegros_def Let_def refund_columns_def getcol_drop_column
        getcol_setcol getcol_setcol_scalar)











lemma emap_total: "emap (\<lambda>x. Inr (g x)) xs = Inr (map g xs)"
  by (induction xs) simp_all

lemma attach_numero_sorteo_Some:
  "map_of header ''numero_sorteo'' = Some v \<Longrightarrow>
     attach_numero_sorteo header premios = Inr (map (AList.update ''numero_sorteo'' v) premios)"
  by (simp add: attach_numero_sorteo_def emap_total)

lemma parse_file_Inr:
  "parse_file env lines = Inr (sorteos, premios) \<longleftrightarrow>
     (\<exists>header_lines body_lines header premios0.
        split_header_body env lines = Inr (header_lines, body_lines)
        \<and> process_header env header_lines = Inr header
        \<and> process_body env body_lines = Inr premios0
        \<and> attach_numero_sorteo header premios0 = Inr premios
        \<and> sorteos = [header])"
  by (auto simp: parse_file_def ebind_Inr_iff)

lemma normalize_Inr:
  "normalize env sorteos premios n = Inr (sorteos_df, premios_df, year) \<longleftrightarrow>
     normalize_premios env (DataFrame premios) = Inr premios_df
     \<and> normalize_sorteos env (DataFrame sorteos) = Inr sorteos_df
     \<and> derive_year sorteos_df n = Inr year"
  by (auto simp: normalize_def ebind_Inr_iff)

lemma getcol_attached:
  "getcol (DataFrame (map (AList.update ''numero_sorteo'' v) premios0)) ''numero_sorteo'' =
     (if premios0 = [] then Inl (KeyError ''numero_sorteo'')
      else Inr (replicate (length premios0) v))"
  by (cases premios0)
     (auto simp: getcol_DataFrame update_conv' map_replicate_const comp_def)

lemma list_all2_replicate_left:
  assumes "list_all2 R (replicate k a) ys" and "\<And>y. R a y \<Longrightarrow> y = v"
  shows "ys = replicate k v"
proof (rule nth_equalityI)
  from assms(1) show len: "length ys = length (replicate k v)"
    by (simp add: list_all2_conv_all_nth)
  fix i
  assume "i < length ys"
  with assms(1) have "R a (ys ! i)"
    by (simp add: list_all2_conv_all_nth)
  from assms(2) [OF this] \<open>i < length ys\<close> len show "ys ! i = replicate k v ! i"
    by simp
qed

text \<open>
  Claim C9. Take a file whose header declares a draw number that is not a placeholder and
  whose processing gets through parsing and normalization, and let the vendor-field split
  leave the \<open>numero_sorteo\<close> column as it found it (it only adds columns). Then the
  normalized draw record holds one draw number, and every normalized prize record holds the
  same one.
\<close>

theorem premios_carry_draw_number:
  assumes "parse_file env lines = Inr ([header], premios)"
    and "normalize env [header] premios n = Inr (sorteos_df, premios_df, year)"
    and "well_formed_header header"
    and "\<forall>df. split_vendido_por_column env (DataFrame premios) = Inr df \<longrightarrow>
           getcol df ''numero_sorteo'' = getcol (DataFrame premios) ''numero_sorteo''"
  shows "\<exists>v. getcol sorteos_df ''numero_sorteo'' = Inr [v]
           \<and> getcol premios_df ''numero_sorteo'' = Inr (replicate (length premios) v)"
proof -
  from assms(3) obtain t where
    t: "map_of header ''numero_sorteo'' = Some (Text t)" and not_ph: "t \<notin> set placeholders"
    by (auto simp: well_formed_header_def split: option.splits cell.splits)
  from assms(1) obtain premios0 where
    "attach_numero_sorteo header premios0 = Inr premios"
    by (auto simp: parse_file_Inr)
  with t have premios: "premios = map (AList.update ''numero_sorteo'' (Text t)) premios0"
    by (simp add: attach_numero_sorteo_Some)
  from assms(2) have np: "normalize_premios env (DataFrame premios) = Inr premios_df"
    and ns: "normalize_sorteos env (DataFrame [header]) = Inr sorteos_df"
    by (simp_all add: normalize_Inr)
  \<comment> \<open>the draw record\<close>
  from ns have enf_s: "enforce_sorteos_schema env (split_reintegros env (DataFrame [header]))
      = Inr sorteos_df"
    by (simp add: normalize_sorteos_def)
  have "getcol (split_reintegros env (DataFrame [header])) ''numero_sorteo'' = Inr [Text t]"
    using t
    by (simp add: getcol_split_reintegros_other refund_columns_def getcol_DataFrame_single)
  with sorteos_int_default [OF enf_s] obtain s1 where
    s1: "to_int64 env [Text t] (Some 0) = Inr s1" "getcol sorteos_df ''numero_sorteo'' = Inr s1"
    by auto
  from s1(1) obtain v where v: "s1 = [v]" "to_int64_cell env (Some 0) (Text t) = Inr v"
    by (auto simp: to_int64_cells list_all2_Cons1)
  \<comment> \<open>the prize records\<close>
  from np obtain df df1 df2 where
    split: "split_vendido_por_column env (DataFrame premios) = Inr df" and
    over: "capital_override env df = Inr df1" and
    sel: "select premios_columns df1 = Inr df2" and
    enf_p: "enforce_premios_schema env df2 = Inr premios_df"
    by (auto simp: normalize_premios_Inr)
  from assms(4) split have "getcol df ''numero_sorteo'' = getcol (DataFrame premios) ''numero_sorteo''"
    by blast
  moreover from over have "getcol df1 ''numero_sorteo'' = getcol df ''numero_sorteo''"
    by (auto simp: capital_override_Inr getcol_loc_set_other)
  moreover have "getcol df2 ''numero_sorteo'' = getcol df1 ''numero_sorteo''"
    by (rule getcol_select [OF sel]) (simp add: premios_columns_def)
  ultimately have same: "getcol df2 ''numero_sorteo''
      = getcol (DataFrame premios) ''numero_sorteo''"
    by simp
  from premios_int_default [OF enf_p] obtain s s' where
    s: "getcol df2 ''numero_sorteo'' = Inr s"
    "to_int64 env (map replace_cell s) (Some 0) = Inr s'"
    "getcol premios_df ''numero_sorteo'' = Inr s'"
    by blast
  from s(1) same premios have col: "s = replicate (length premios) (Text t)"
    by (auto simp: getcol_attached split: if_splits)
  from not_ph have "replace_cell (Text t) = (Text t :: 'a cell)"
    by (auto simp: replace_cell_def placeholders_def)
  with s(2) col have "list_all2 (\<lambda>c c'. to_int64_cell env (Some 0) c = Inr c')
      (replicate (length premios) (Text t)) s'"
    by (simp add: to_int64_cells)
  then have "s' = replicate (length premios) v"
    by (rule list_all2_replicate_left) (simp add: v(2))
  with s(3) s1(2) v(1) show ?thesis by simp
qed

lemma sample_derive_year: "derive_year sample_sorteos_out n = Inr 2024"
  by (simp add: derive_year_def getcol_def sample_sorteos_out_def)

lemma sample_normalize:
  "normalize (sample_env raw failing) [sample_header] sample_premios n
     = Inr (sample_sorteos_out, sample_premios_out, 2024)"
  by (simp add: normalize_Inr sample_normalize_premios sample_normalize_sorteos sample_derive_year)

theorem premios_carry_draw_number_witness:
  "parse_file (sample_env [] []) file_1234 = Inr ([sample_header], sample_premios)
   \<and> normalize (sample_env [] []) [sample_header] sample_premios 1234
       = Inr (sample_sorteos_out, sample_premios_out, 2024)
   \<and> well_formed_header sample_header
   \<and> getcol sample_split_frame ''numero_sorteo''
       = getcol (DataFrame sample_premios) ''numero_sorteo''
   \<and> getcol sample_sorteos_out ''numero_sorteo'' = Inr [IntV 1234]
   \<and> getcol sample_premios_out ''numero_sorteo'' = Inr (replicate (length sample_premios) (IntV 1234))"
proof -
  have wf: "well_formed_header sample_header"
    by (simp add: well_formed_header_def sample_header_def placeholders_def)
  have kept: "getcol sample_split_frame ''numero_sorteo''
       = getcol (DataFrame sample_premios) ''numero_sorteo''"
    by (simp add: getcol_DataFrame sample_premios_def) (simp add: getcol_def sample_split_frame_def)
  then have split: "\<forall>df. split_vendido_por_column (sample_env [] []) (DataFrame sample_premios) = Inr df
      \<longrightarrow> getcol df ''numero_sorteo'' = getcol (DataFrame sample_premios) ''numero_sorteo''"
    by (simp add: sample_split)
  have out: "getcol sample_sorteos_out ''numero_sorteo'' = Inr [IntV 1234]"
    by (simp add: getcol_def sample_sorteos_out_def)
  from premios_carry_draw_number [OF sample_parse sample_normalize [of "[]" "[]" 1234] wf split] out
  have "getcol sample_premios_out ''numero_sorteo''
      = Inr (replicate (length sample_premios) (IntV 1234))"
    by auto
  with sample_parse [of "[]" "[]"] sample_normalize [of "[]" "[]" 1234] wf kept out
  show ?thesis by simp
qed

lemma to_datetime_cell_cases:
  "to_datetime_cell env v = Null \<or> (\<exists>d. to_datetime_cell env v = DateV d)"
  by (cases v) (auto simp: to_datetime_cell_def split: option.splits)

lemma derive_year_normalized:
  assumes "normalize_sorteos env (DataFrame [header]) = Inr sorteos_df"
  shows "map_of header ''fecha_sorteo'' \<noteq> None
     \<and> derive_year sorteos_df n =
         (case to_datetime_cell env (header_cell header ''fecha_sorteo'') of
            DateV d \<Rightarrow> Inr (date_year d)
          | _ \<Rightarrow> Inl (invalid_fecha_sorteo n))"
proof -
  from assms have enf: "enforce_sorteos_schema env (split_reintegros env (DataFrame [header]))
      = Inr sorteos_df"
    by (simp add: normalize_sorteos_def)
  have "getcol (split_reintegros env (DataFrame [header])) ''fecha_sorteo''
      = getcol (DataFrame [header]) ''fecha_sorteo''"
    by (rule getcol_split_reintegros_other) (simp add: refund_columns_def)
  with sorteos_dates [OF enf, of "''fecha_sorteo''"] obtain v where
    v: "map_of header ''fecha_sorteo'' = Some v"
    and col: "getcol sorteos_df ''fecha_sorteo'' = Inr [to_datetime_cell env v]"
    by (auto simp: getcol_DataFrame_single to_datetime_def split: option.splits)
  from to_datetime_cell_cases [of env v] col v show ?thesis
    by (auto simp: derive_year_def header_cell_def)
qed

lemma process_file_failed:
  "read_and_normalize env cfg n raw_file = Inl e \<Longrightarrow>
     process_file env cfg n raw_file w = (record_call (Download (bucket_name cfg) raw_file) w, Some e)"
  by (simp add: process_file_def)

lemma process_file_normalized:
  "read_and_normalize env cfg n raw_file = Inr (sorteos_df, premios_df, year) \<Longrightarrow>
     process_file env cfg n raw_file w =
       upload_outputs env cfg n year sorteos_df premios_df
         (record_call (Download (bucket_name cfg) raw_file) w)"
  by (simp add: process_file_def)

lemma read_and_normalize_parsed:
  assumes "download_lines env (bucket_name cfg) raw_file = Inr lines"
    and "parse_file env lines = Inr (sorteos, premios)"
  shows "read_and_normalize env cfg n raw_file = normalize env sorteos premios n"
  using assms by (simp add: read_and_normalize_def)

lemma normalize_Inl_or:
  "(\<exists>e. normalize env sorteos premios n = Inl e) \<or>
   (\<exists>sorteos_df premios_df year. normalize env sorteos premios n = Inr (sorteos_df, premios_df, year))"
  by (cases "normalize env sorteos premios n") auto

text \<open>
  Claim C3. For a file that was downloaded and parsed, with its one header record: when the
  draw date of the header does not parse with the format DD/MM/YYYY (or is missing),
  processing the file raises and nothing is uploaded: the world only gains the download
  call. When both record sets normalize, the date decides: a date that does not parse raises
  the error of line 208, and a date that parses raises nothing there, the partition year
  being the year of that date, under which the uploads then run.
\<close>

theorem draw_date_decides_partition:
  assumes "download_lines env (bucket_name cfg) raw_file = Inr lines"
    and "parse_file env lines = Inr ([header], premios)"
  shows "(to_datetime_cell env (header_cell header ''fecha_sorteo'') = Null \<longrightarrow>
            (\<exists>e. process_file env cfg n raw_file w
                   = (record_call (Download (bucket_name cfg) raw_file) w, Some e)))
       \<and> (\<forall>premios_df sorteos_df.
            normalize_premios env (DataFrame premios) = Inr premios_df
            \<and> normalize_sorteos env (DataFrame [header]) = Inr sorteos_df \<longrightarrow>
            process_file env cfg n raw_file w =
              (case to_datetime_cell env (header_cell header ''fecha_sorteo'') of
                 DateV d \<Rightarrow>
                   upload_outputs env cfg n (date_year d) sorteos_df premios_df
                     (record_call (Download (bucket_name cfg) raw_file) w)
               | _ \<Rightarrow>
                   (record_call (Download (bucket_name cfg) raw_file) w,
                    Some (invalid_fecha_sorteo n))))"
proof (intro conjI allI impI)
  assume null: "to_datetime_cell env (header_cell header ''fecha_sorteo'') = Null"
  have "\<exists>e. normalize env [header] premios n = Inl e"
  proof (rule ccontr)
    assume "\<not> (\<exists>e. normalize env [header] premios n = Inl e)"
    with normalize_Inl_or [of env "[header]" premios n] obtain sorteos_df premios_df year where
      ok: "normalize env [header] premios n = Inr (sorteos_df, premios_df, year)"
      by blast
    then have "normalize_sorteos env (DataFrame [header]) = Inr sorteos_df"
      and "derive_year sorteos_df n = Inr year"
      by (simp_all add: normalize_Inr)
    with derive_year_normalized [of env header sorteos_df n] null show False
      by simp
  qed
  then obtain e where "read_and_normalize env cfg n raw_file = Inl e"
    using read_and_normalize_parsed [OF assms] by auto
  from process_file_failed [OF this]
  show "\<exists>e. process_file env cfg n raw_file w
      = (record_call (Download (bucket_name cfg) raw_file) w, Some e)"
    by blast
next
  fix premios_df sorteos_df
  assume "normalize_premios env (DataFrame premios) = Inr premios_df
      \<and> normalize_sorteos env (DataFrame [header]) = Inr sorteos_df"
  then have np: "normalize_premios env (DataFrame premios) = Inr premios_df"
    and ns: "normalize_sorteos env (DataFrame [header]) = Inr sorteos_df"
    by simp_all
  from derive_year_normalized [OF ns, of n]
  have year: "derive_year sorteos_df n =
         (case to_datetime_cell env (header_cell header ''fecha_sorteo'') of
            DateV d \<Rightarrow> Inr (date_year d)
          | _ \<Rightarrow> Inl (invalid_fecha_sorteo n))"
    by simp
  have norm: "read_and_normalize env cfg n raw_file =
      ebind (derive_year sorteos_df n) (\<lambda>year. Inr (sorteos_df, premios_df, year))"
    using read_and_normalize_parsed [OF assms] np ns
    by (simp add: normalize_def)
  from to_datetime_cell_cases [of env "header_cell header ''fecha_sorteo''"]
  show "process_file env cfg n raw_file w =
              (case to_datetime_cell env (header_cell header ''fecha_sorteo'') of
                 DateV d \<Rightarrow>
                   upload_outputs env cfg n (date_year d) sorteos_df premios_df
                     (record_call (Download (bucket_name cfg) raw_file) w)
               | _ \<Rightarrow>
                   (record_call (Download (bucket_name cfg) raw_file) w,
                    Some (invalid_fecha_sorteo n)))"
    using norm year
    by (auto simp: process_file_def)
qed

lemmas sample_raw_defs =
  sample_raw_def sample_header_bad_date_def sample_premios_bad_date_def

lemma sample_download_1234:
  "download_lines (sample_env sample_raw failing) b key_1234 = Inr file_1234"
  by (simp add: sample_env_def sample_raw_def key_1234_def key_1235_def)

lemma sample_download_1235:
  "download_lines (sample_env sample_raw failing) b key_1235 = Inr file_bad_date"
  by (simp add: sample_env_def sample_raw_def key_1234_def key_1235_def)

lemma sample_parse_bad_date:
  "parse_file (sample_env raw failing) file_bad_date
     = Inr ([sample_header_bad_date], sample_premios_bad_date)"
  by (simp add: sample_raw_defs frame_defs pandas_defs normalize_defs orchestrator_defs
        sample_defs cong: ebind_weak_cong)

lemma sample_date_1234:
  "to_datetime_cell (sample_env raw failing) (header_cell sample_header ''fecha_sorteo'')
     = DateV (Date 2024 6 1)"
  by (simp add: header_cell_def sample_header_def pandas_defs orchestrator_defs sample_defs)

lemma sample_date_bad:
  "to_datetime_cell (sample_env raw failing) (header_cell sample_header_bad_date ''fecha_sorteo'')
     = Null"
  by (simp add: header_cell_def sample_header_bad_date_def pandas_defs orchestrator_defs
        sample_defs)

theorem draw_date_decides_partition_witness:
  "download_lines (sample_env sample_raw []) (bucket_name sample_config) key_1235 = Inr file_bad_date
   \<and> parse_file (sample_env sample_raw []) file_bad_date
       = Inr ([sample_header_bad_date], sample_premios_bad_date)
   \<and> to_datetime_cell (sample_env sample_raw []) (header_cell sample_header_bad_date ''fecha_sorteo'')
       = Null
   \<and> (\<exists>e. process_file (sample_env sample_raw []) sample_config 1235 key_1235 empty_world
            = (record_call (Download (bucket_name sample_config) key_1235) empty_world, Some e))
   \<and> download_lines (sample_env sample_raw []) (bucket_name sample_config) key_1234 = Inr file_1234
   \<and> parse_file (sample_env sample_raw []) file_1234 = Inr ([sample_header], sample_premios)
   \<and> normalize_premios (sample_env sample_raw []) (DataFrame sample_premios) = Inr sample_premios_out
   \<and> normalize_sorteos (sample_env sample_raw []) (DataFrame [sample_header]) = Inr sample_sorteos_out
   \<and> to_datetime_cell (sample_env sample_raw []) (header_cell sample_header ''fecha_sorteo'')
       = DateV (Date 2024 6 1)
   \<and> process_file (sample_env sample_raw []) sample_config 1234 key_1234 empty_world
       = upload_outputs (sample_env sample_raw []) sample_config 1234 2024
           sample_sorteos_out sample_premios_out
           (record_call (Download (bucket_name sample_config) key_1234) empty_world)"
proof -
  note bad = draw_date_decides_partition
    [OF sample_download_1235 sample_parse_bad_date, of "[]" sample_config 1235 empty_world]
  note good = draw_date_decides_partition
    [OF sample_download_1234 sample_parse, of "[]" sample_config 1234 empty_world]
  from bad sample_date_bad [of sample_raw "[]"]
  have a: "\<exists>e. process_file (sample_env sample_raw []) sample_config 1235 key_1235 empty_world
            = (record_call (Download (bucket_name sample_config) key_1235) empty_world, Some e)"
    by blast
  from good sample_normalize_premios [of sample_raw "[]"]
    sample_normalize_sorteos [of sample_raw "[]"]
  have "process_file (sample_env sample_raw []) sample_config 1234 key_1234 empty_world =
          (case to_datetime_cell (sample_env sample_raw []) (header_cell sample_header ''fecha_sorteo'') of
             DateV d \<Rightarrow>
               upload_outputs (sample_env sample_raw []) sample_config 1234 (date_year d)
                 sample_sorteos_out sample_premios_out
                 (record_call (Download (bucket_name sample_config) key_1234) empty_world)
           | _ \<Rightarrow>
               (record_call (Download (bucket_name sample_config) key_1234) empty_world,
                Some (invalid_fecha_sorteo 1234)))"
    by blast
  then have b: "process_file (sample_env sample_raw []) sample_config 1234 key_1234 empty_world
       = upload_outputs (sample_env sample_raw []) sample_config 1234 2024
           sample_sorteos_out sample_premios_out
           (record_call (Download (bucket_name sample_config) key_1234) empty_world)"
    by (simp add: sample_date_1234)
  from a b sample_download_1235 sample_download_1234 sample_parse sample_parse_bad_date
    sample_date_bad sample_date_1234 sample_normalize_premios sample_normalize_sorteos
  show ?thesis by simp
qed

lemma upload_file_to_s3_cases:
  "upload_file_to_s3 env payload bucket key w =
     (if upload_succeeds env (Upload bucket key payload)
      then (\<lparr>store = put_object (store w) (Upload bucket key payload),
             calls = calls w @ [Upload bucket key payload]\<rparr>, None)
      else (\<lparr>store = store w, calls = calls w @ [Upload bucket key payload]\<rparr>,
            Some (StorageError key)))"
  by (simp add: upload_file_to_s3_def upload_succeeds_def put_object_def record_call_def)

lemma upload_outputs_result:
  "upload_outputs env cfg n year sorteos_df premios_df w =
     (let plan = planned_uploads cfg n year sorteos_df premios_df;
          done = takeWhile (upload_succeeds env) plan
      in (\<lparr>store = foldl put_object (store w) done,
            calls = calls w @ take (Suc (length done)) plan\<rparr>,
          if done = plan then None
          else Some (StorageError (case plan ! length done of Upload b k p \<Rightarrow> k | _ \<Rightarrow> []))))"
  by (simp add: upload_outputs_def planned_uploads_def upload_file_to_s3_cases)

lemma sample_read_and_normalize_1234:
  assumes "download_lines (sample_env raw failing) (bucket_name cfg) key_1234 = Inr file_1234"
  shows "read_and_normalize (sample_env raw failing) cfg 1234 key_1234
     = Inr (sample_sorteos_out, sample_premios_out, 2024)"
  using read_and_normalize_parsed [OF assms sample_parse] by (simp add: sample_normalize)

lemma sample_extract_1234: "extract_sorteo key_1234 = Some 1234"
  by (simp add: key_1234_def orchestrator_defs)

lemma sample_extract_1235: "extract_sorteo key_1235 = Some 1235"
  by (simp add: key_1235_def orchestrator_defs)

lemma sample_plan_1234:
  "planned_uploads sample_config 1234 2024 sdf pdf =
     [Upload ''simple'' ''flat/sorteos_1234.parquet'' sdf,
      Upload ''simple'' ''flat/premios_1234.parquet'' pdf,
      Upload ''lake'' ''silver/sorteos/year=2024/sorteo=1234/sorteos.parquet'' sdf,
      Upload ''lake'' ''silver/premios/year=2024/sorteo=1234/premios.parquet'' pdf]"
  by (simp add: planned_uploads_def sample_config_def simple_key_def partitioned_key_def
        show_int_def show_nat.simps digit_char_def SILVER_PREFIX_DEFAULT_def)

lemma sample_failing_download:
  "download_lines sample_env_failing (bucket_name cfg) key_1234 = Inr file_1234"
  by (simp add: sample_env_failing_def sample_env_def)

lemma sample_failing_process:
  "process_file sample_env_failing sample_config 1234 key_1234 w =
     (\<lparr>store = foldl put_object (store w)
                [Upload ''simple'' ''flat/sorteos_1234.parquet'' sample_sorteos_out,
                 Upload ''simple'' ''flat/premios_1234.parquet'' sample_premios_out,
                 Upload ''lake'' ''silver/sorteos/year=2024/sorteo=1234/sorteos.parquet''
                   sample_sorteos_out],
       calls = calls w @ Download ''lake'' key_1234
                 # planned_uploads sample_config 1234 2024 sample_sorteos_out sample_premios_out\<rparr>,
      Some (StorageError ''silver/premios/year=2024/sorteo=1234/premios.parquet''))"
proof -
  have "read_and_normalize sample_env_failing sample_config 1234 key_1234
      = Inr (sample_sorteos_out, sample_premios_out, 2024)"
    using sample_read_and_normalize_1234 [OF sample_failing_download [unfolded sample_env_failing_def]]
    by (simp add: sample_env_failing_def)
  then show ?thesis
    by (simp add: process_file_normalized upload_outputs_result sample_plan_1234
          upload_succeeds_def record_call_def)
       (simp add: sample_env_failing_def sample_env_def sample_config_def)
qed

text \<open>
  Claim C2, as stated, fails in its second half: the four uploads of a file are separate
  calls, the canonical draw object before the canonical prize object. When the last upload
  raises, the run ends with the canonical output holding the draw object of draw 1234 and
  no prize object for it.
\<close>

theorem half_written_draw_counterexample:
  "snd (transform sample_env_failing sample_config empty_world)
     = Some (StorageError ''silver/premios/year=2024/sorteo=1234/premios.parquet'')
   \<and> object_keys (fst (transform sample_env_failing sample_config empty_world))
       = {(''simple'', ''flat/sorteos_1234.parquet''),
          (''simple'', ''flat/premios_1234.parquet''),
          (''lake'', ''silver/sorteos/year=2024/sorteo=1234/sorteos.parquet'')}
   \<and> (''lake'', ''silver/premios/year=2024/sorteo=1234/premios.parquet'')
       \<notin> object_keys (fst (transform sample_env_failing sample_config empty_world))"
proof -
  have files: "list_files_in_s3 sample_env_failing (bucket_name sample_config)
      (raw_prefix sample_config) = Inr [key_1234]"
    by (simp add: sample_env_failing_def sample_env_def sample_config_def key_1234_def)
  have "transform sample_env_failing sample_config empty_world =
      process_file sample_env_failing sample_config 1234 key_1234
        (record_call (ListFiles (bucket_name sample_config) (raw_prefix sample_config))
          (record_call (ListProcessed (bucket_name sample_config)
             (silver_prefix sample_config @ ''sorteos/'')) empty_world))"
    by (simp add: transform_def files sample_extract_1234 Let_def
          list_processed_sorteos_in_partitioned_bucket_def empty_world_def
          List.map_filter_def record_call_def sample_failing_process)
  then show ?thesis
    by (simp add: sample_failing_process object_keys_def put_object_def record_call_def
          empty_world_def insert_commute)
qed

text \<open>
  Claim C2, amended. When reading, parsing or normalizing a file raises, processing the file
  ends with the download call alone: nothing is uploaded. When both record sets are
  normalized, the four objects are uploaded one call at a time in the order simple draws,
  simple prizes, canonical draws, canonical prizes, up to and including the first call that
  raises; the objects hold exactly the uploads that succeeded before it, and the file
  completes without error exactly when all four succeeded. So the canonical prize object is
  never written before the canonical draw object of the same file, while the canonical draw
  object is there without the prize object between the last two calls, and stays so when
  the last call raises.
\<close>

theorem uploads_follow_normalization:
  "(\<forall>e. read_and_normalize env cfg n raw_file = Inl e \<longrightarrow>
       process_file env cfg n raw_file w
         = (record_call (Download (bucket_name cfg) raw_file) w, Some e))
   \<and> (\<forall>sorteos_df premios_df year.
        read_and_normalize env cfg n raw_file = Inr (sorteos_df, premios_df, year) \<longrightarrow>
        (let plan = planned_uploads cfg n year sorteos_df premios_df;
             done = takeWhile (upload_succeeds env) plan
         in process_file env cfg n raw_file w
              = (\<lparr>store = foldl put_object (store w) done,
                   calls = calls w @ Download (bucket_name cfg) raw_file
                             # take (Suc (length done)) plan\<rparr>,
                 if done = plan then None
                 else Some (StorageError
                        (case plan ! length done of Upload b k p \<Rightarrow> k | _ \<Rightarrow> [])))))"
  by (simp add: process_file_failed process_file_normalized upload_outputs_result Let_def
        record_call_def)

theorem uploads_follow_normalization_witness:
  "read_and_normalize sample_env_failing sample_config 77 ''raw/missing.txt''
     = Inl (StorageError ''raw/missing.txt'')
   \<and> process_file sample_env_failing sample_config 77 ''raw/missing.txt'' empty_world
       = (record_call (Download (bucket_name sample_config) ''raw/missing.txt'') empty_world,
          Some (StorageError ''raw/missing.txt''))
   \<and> read_and_normalize sample_env_failing sample_config 1234 key_1234
       = Inr (sample_sorteos_out, sample_premios_out, 2024)
   \<and> takeWhile (upload_succeeds sample_env_failing)
        (planned_uploads sample_config 1234 2024 sample_sorteos_out sample_premios_out)
       = take 3 (planned_uploads sample_config 1234 2024 sample_sorteos_out sample_premios_out)
   \<and> process_file sample_env_failing sample_config 1234 key_1234 empty_world
       = (\<lparr>store = foldl put_object (store empty_world)
                     (take 3 (planned_uploads sample_config 1234 2024
                                sample_sorteos_out sample_premios_out)),
            calls = calls empty_world @ Download (bucket_name sample_config) key_1234
                      # planned_uploads sample_config 1234 2024
                          sample_sorteos_out sample_premios_out\<rparr>,
          Some (StorageError ''silver/premios/year=2024/sorteo=1234/premios.parquet''))"
proof -
  have missing: "read_and_normalize sample_env_failing sample_config 77 ''raw/missing.txt''
     = Inl (StorageError ''raw/missing.txt'')"
    by (simp add: read_and_normalize_def sample_env_failing_def sample_env_def key_1234_def)
  have ok: "read_and_normalize sample_env_failing sample_config 1234 key_1234
       = Inr (sample_sorteos_out, sample_premios_out, 2024)"
    using sample_read_and_normalize_1234 [OF sample_failing_download [unfolded sample_env_failing_def]]
    by (simp add: sample_env_failing_def)
  have prefix3: "takeWhile (upload_succeeds sample_env_failing)
        (planned_uploads sample_config 1234 2024 sample_sorteos_out sample_premios_out)
       = take 3 (planned_uploads sample_config 1234 2024 sample_sorteos_out sample_premios_out)"
    by (simp add: sample_plan_1234 upload_succeeds_def)
       (simp add: sample_env_failing_def sample_env_def)
  note inst1 = uploads_follow_normalization
    [of sample_env_failing sample_config 77 "''raw/missing.txt''" empty_world]
  note inst2 = uploads_follow_normalization
    [of sample_env_failing sample_config 1234 key_1234 empty_world]
  from inst1 missing
  have a: "process_file sample_env_failing sample_config 77 ''raw/missing.txt'' empty_world
       = (record_call (Download (bucket_name sample_config) ''raw/missing.txt'') empty_world,
          Some (StorageError ''raw/missing.txt''))"
    by blast
  from inst2 ok
  have "let plan = planned_uploads sample_config 1234 2024 sample_sorteos_out sample_premios_out;
            done = takeWhile (upload_succeeds sample_env_failing) plan
        in process_file sample_env_failing sample_config 1234 key_1234 empty_world
              = (\<lparr>store = foldl put_object (store empty_world) done,
                   calls = calls empty_world @ Download (bucket_name sample_config) key_1234
                             # take (Suc (length done)) plan\<rparr>,
                 if done = plan then None
                 else Some (StorageError
                        (case plan ! length done of Upload b k p \<Rightarrow> k | _ \<Rightarrow> [])))"
    by blast
  then have b: "process_file sample_env_failing sample_config 1234 key_1234 empty_world
       = (\<lparr>store = foldl put_object (store empty_world)
                     (take 3 (planned_uploads sample_config 1234 2024
                                sample_sorteos_out sample_premios_out)),
            calls = calls empty_world @ Download (bucket_name sample_config) key_1234
                      # planned_uploads sample_config 1234 2024
                          sample_sorteos_out sample_premios_out\<rparr>,
          Some (StorageError ''silver/premios/year=2024/sorteo=1234/premios.parquet''))"
    unfolding Let_def prefix3 by (simp add: sample_plan_1234)
  from missing a ok prefix3 b show ?thesis by simp
qed

lemma header_draw_number_normalized:
  assumes "normalize_sorteos env (DataFrame [header]) = Inr sorteos_df"
  shows "\<exists>v. to_int64_cell env (Some 0) (header_cell header ''numero_sorteo'') = Inr v
           \<and> getcol sorteos_df ''numero_sorteo'' = Inr [v]"
proof -
  from assms have enf: "enforce_sorteos_schema env (split_reintegros env (DataFrame [header]))
      = Inr sorteos_df"
    by (simp add: normalize_sorteos_def)
  have "getcol (split_reintegros env (DataFrame [header])) ''numero_sorteo''
      = getcol (DataFrame [header]) ''numero_sorteo''"
    by (rule getcol_split_reintegros_other) (simp add: refund_columns_def)
  with sorteos_int_default [OF enf] obtain c s' where
    "map_of header ''numero_sorteo'' = Some c" "to_int64 env [c] (Some 0) = Inr s'"
    "getcol sorteos_df ''numero_sorteo'' = Inr s'"
    by (auto simp: getcol_DataFrame_single split: option.splits)
  then show ?thesis
    by (auto simp: to_int64_cells list_all2_Cons1 header_cell_def)
qed

text \<open>
  Claim C10. A raw key without a \<open>sorteo=<digits>/\<close> segment, and a key whose segment
  gives a draw number already listed as processed, are skipped: the loop goes on with the
  rest from the same world, with no call and no error. For any other key, once the file is
  downloaded, parsed and normalized, the uploads run with the keys built from the number of
  the key (the simple and the partitioned paths), in order and up to the first failing call,
  whereas the \<open>numero_sorteo\<close> cell of the uploaded draw record is the coerced draw number
  of the header, whatever the number of the key is.
\<close>

theorem key_number_drives_skip_and_paths:
  "(extract_sorteo raw_file = None \<longrightarrow>
      transform_files env cfg P (raw_file # rest) w = transform_files env cfg P rest w)
   \<and> (\<forall>n. extract_sorteo raw_file = Some n \<and> n \<in> set P \<longrightarrow>
        transform_files env cfg P (raw_file # rest) w = transform_files env cfg P rest w)
   \<and> (\<forall>n lines header premios sorteos_df premios_df year.
        extract_sorteo raw_file = Some n \<and> n \<notin> set P
        \<and> download_lines env (bucket_name cfg) raw_file = Inr lines
        \<and> parse_file env lines = Inr ([header], premios)
        \<and> normalize env [header] premios n = Inr (sorteos_df, premios_df, year) \<longrightarrow>
        transform_files env cfg P (raw_file # rest) w
          = sbind (upload_outputs env cfg n year sorteos_df premios_df
                     (record_call (Download (bucket_name cfg) raw_file) w))
              (transform_files env cfg P rest)
        \<and> calls (fst (upload_outputs env cfg n year sorteos_df premios_df w))
            = calls w @ take (Suc (length (takeWhile (upload_succeeds env)
                                             (planned_uploads cfg n year sorteos_df premios_df))))
                          (planned_uploads cfg n year sorteos_df premios_df)
        \<and> (\<exists>v. to_int64_cell env (Some 0) (header_cell header ''numero_sorteo'') = Inr v
               \<and> getcol sorteos_df ''numero_sorteo'' = Inr [v]))"
proof (intro conjI allI impI)
  show "transform_files env cfg P (raw_file # rest) w = transform_files env cfg P rest w"
    if "extract_sorteo raw_file = None"
    using that by simp
  show "transform_files env cfg P (raw_file # rest) w = transform_files env cfg P rest w"
    if "extract_sorteo raw_file = Some n \<and> n \<in> set P" for n
    using that by simp
next
  fix n lines header premios sorteos_df premios_df year
  assume h: "extract_sorteo raw_file = Some n \<and> n \<notin> set P
        \<and> download_lines env (bucket_name cfg) raw_file = Inr lines
        \<and> parse_file env lines = Inr ([header], premios)
        \<and> normalize env [header] premios n = Inr (sorteos_df, premios_df, year)"
  then have "read_and_normalize env cfg n raw_file = Inr (sorteos_df, premios_df, year)"
    by (simp add: read_and_normalize_def)
  from process_file_normalized [OF this] h
  show "transform_files env cfg P (raw_file # rest) w
          = sbind (upload_outputs env cfg n year sorteos_df premios_df
                     (record_call (Download (bucket_name cfg) raw_file) w))
              (transform_files env cfg P rest)"
    by simp
  show "calls (fst (upload_outputs env cfg n year sorteos_df premios_df w))
            = calls w @ take (Suc (length (takeWhile (upload_succeeds env)
                                             (planned_uploads cfg n year sorteos_df premios_df))))
                          (planned_uploads cfg n year sorteos_df premios_df)"
    by (simp add: upload_outputs_result Let_def)
  from h have "normalize_sorteos env (DataFrame [header]) = Inr sorteos_df"
    by (simp add: normalize_Inr)
  then show "\<exists>v. to_int64_cell env (Some 0) (header_cell header ''numero_sorteo'') = Inr v
               \<and> getcol sorteos_df ''numero_sorteo'' = Inr [v]"
    by (rule header_draw_number_normalized)
qed

lemma mismatch_download:
  "download_lines sample_env_mismatch (bucket_name cfg) key_1234 = Inr file_mismatch"
  by (simp add: sample_env_mismatch_def sample_env_def)

lemma mismatch_parse:
  "parse_file sample_env_mismatch file_mismatch = Inr ([mismatch_header], mismatch_premios)"
  by (simp add: sample_env_mismatch_def mismatch_header_def mismatch_premios_def sample_data_defs
        frame_defs pandas_defs normalize_defs orchestrator_defs sample_defs
        cong: ebind_weak_cong)

lemma mismatch_normalize:
  "normalize sample_env_mismatch [mismatch_header] mismatch_premios 1234
     = Inr (mismatch_sorteos_out, mismatch_premios_out, 2024)"
  by (simp add: sample_env_mismatch_def mismatch_header_def mismatch_premios_def
        mismatch_sorteos_out_def mismatch_premios_out_def sample_data_defs
        frame_defs pandas_defs normalize_defs orchestrator_defs sample_defs
        cong: ebind_weak_cong)

theorem key_number_drives_skip_and_paths_witness:
  "extract_sorteo ''raw/readme.txt'' = None
   \<and> transform_files sample_env_mismatch sample_config [] [''raw/readme.txt''] empty_world
       = (empty_world, None)
   \<and> extract_sorteo key_1234 = Some 1234
   \<and> transform_files sample_env_mismatch sample_config [1234] [key_1234] empty_world
       = (empty_world, None)
   \<and> download_lines sample_env_mismatch (bucket_name sample_config) key_1234 = Inr file_mismatch
   \<and> parse_file sample_env_mismatch file_mismatch = Inr ([mismatch_header], mismatch_premios)
   \<and> normalize sample_env_mismatch [mismatch_header] mismatch_premios 1234
       = Inr (mismatch_sorteos_out, mismatch_premios_out, 2024)
   \<and> header_cell mismatch_header ''numero_sorteo'' = Text ''9999''
   \<and> getcol mismatch_sorteos_out ''numero_sorteo'' = Inr [IntV 9999]
   \<and> calls (fst (upload_outputs sample_env_mismatch sample_config 1234 2024
                   mismatch_sorteos_out mismatch_premios_out empty_world))
       = [Upload ''simple'' ''flat/sorteos_1234.parquet'' mismatch_sorteos_out,
          Upload ''simple'' ''flat/premios_1234.parquet'' mismatch_premios_out,
          Upload ''lake'' ''silver/sorteos/year=2024/sorteo=1234/sorteos.parquet''
            mismatch_sorteos_out,
          Upload ''lake'' ''silver/premios/year=2024/sorteo=1234/premios.parquet''
            mismatch_premios_out]"
proof -
  have none: "extract_sorteo ''raw/readme.txt'' = None"
    by (simp add: orchestrator_defs)
  have cell: "header_cell mismatch_header ''numero_sorteo'' = Text ''9999''"
    by (simp add: header_cell_def mismatch_header_def)
  have succeed: "takeWhile (upload_succeeds sample_env_mismatch)
        (planned_uploads sample_config 1234 2024 mismatch_sorteos_out mismatch_premios_out)
      = planned_uploads sample_config 1234 2024 mismatch_sorteos_out mismatch_premios_out"
    by (simp add: sample_plan_1234 upload_succeeds_def sample_env_mismatch_def sample_env_def)
  note skip = key_number_drives_skip_and_paths
    [of "''raw/readme.txt''" sample_env_mismatch sample_config "[]" "[]" empty_world]
  note seen = key_number_drives_skip_and_paths
    [of key_1234 sample_env_mismatch sample_config "[1234]" "[]" empty_world]
  note run = key_number_drives_skip_and_paths
    [of key_1234 sample_env_mismatch sample_config "[]" "[]" empty_world]
  from skip none
  have a: "transform_files sample_env_mismatch sample_config [] [''raw/readme.txt''] empty_world
       = (empty_world, None)"
    by simp
  from seen sample_extract_1234
  have b: "transform_files sample_env_mismatch sample_config [1234] [key_1234] empty_world
       = (empty_world, None)"
    by simp
  from run sample_extract_1234 mismatch_download [of sample_config] mismatch_parse mismatch_normalize
  have "calls (fst (upload_outputs sample_env_mismatch sample_config 1234 2024
                   mismatch_sorteos_out mismatch_premios_out empty_world))
            = calls empty_world @ take (Suc (length (takeWhile (upload_succeeds sample_env_mismatch)
                 (planned_uploads sample_config 1234 2024 mismatch_sorteos_out mismatch_premios_out))))
                 (planned_uploads sample_config 1234 2024 mismatch_sorteos_out mismatch_premios_out)
        \<and> (\<exists>v. to_int64_cell sample_env_mismatch (Some 0) (header_cell mismatch_header ''numero_sorteo'') = Inr v
               \<and> getcol mismatch_sorteos_out ''numero_sorteo'' = Inr [v])"
    by simp
  then have c: "calls (fst (upload_outputs sample_env_mismatch sample_config 1234 2024
                   mismatch_sorteos_out mismatch_premios_out empty_world))
       = planned_uploads sample_config 1234 2024 mismatch_sorteos_out mismatch_premios_out"
    by (simp add: succeed) (simp add: planned_uploads_def empty_world_def)
  have d: "getcol mismatch_sorteos_out ''numero_sorteo'' = Inr [IntV 9999]"
    by (simp add: mismatch_sorteos_out_def getcol_setcol)
  from none a sample_extract_1234 b mismatch_download mismatch_parse mismatch_normalize cell c d
  show ?thesis
    by (simp add: sample_plan_1234)
qed

lemma sbind_assoc: "sbind (sbind m f) g = sbind m (\<lambda>w. sbind (f w) g)"
proof (cases m)
  case (Pair w r)
  then show ?thesis by (cases r) simp_all
qed

lemma transform_files_append:
  "transform_files env cfg P (xs @ ys) w
     = sbind (transform_files env cfg P xs w) (transform_files env cfg P ys)"
proof (induction xs arbitrary: w)
  case Nil
  then show ?case by simp
next
  case (Cons x xs)
  have ih: "transform_files env cfg P (xs @ ys)
      = (\<lambda>w. sbind (transform_files env cfg P xs w) (transform_files env cfg P ys))"
    by (rule ext) (rule Cons.IH)
  show ?case
  proof (cases "extract_sorteo x")
    case None
    with Cons.IH show ?thesis by simp
  next
    case (Some n)
    show ?thesis
    proof (cases "n \<in> set P")
      case True
      with Some Cons.IH show ?thesis by simp
    next
      case False
      with Some show ?thesis
        by (simp add: sbind_assoc ih)
    qed
  qed
qed

lemma transform_files_to_process:
  "transform_files env cfg P raw_files w
     = transform_files env cfg P (filter (to_process P) raw_files) w"
proof (induction raw_files arbitrary: w)
  case Nil
  then show ?case by simp
next
  case (Cons x xs)
  have ih: "transform_files env cfg P xs
      = transform_files env cfg P (filter (to_process P) xs)"
    by (rule ext) (rule Cons.IH)
  show ?case
  proof (cases "extract_sorteo x")
    case None
    with Cons.IH show ?thesis by (simp add: to_process_def)
  next
    case (Some n)
    show ?thesis
    proof (cases "n \<in> set P")
      case True
      with Some Cons.IH show ?thesis by (simp add: to_process_def)
    next
      case False
      with Some have "to_process P x" by (simp add: to_process_def)
      with Some False show ?thesis
        by (simp add: ih [symmetric])
    qed
  qed
qed

lemma sample_bad_date_normalize:
  "read_and_normalize (sample_env sample_raw failing) sample_config 1235 key_1235
     = Inl (invalid_fecha_sorteo 1235)"
proof -
  have p: "normalize_premios (sample_env sample_raw failing) (DataFrame sample_premios_bad_date)
      = Inr (setcol ''departamento'' [Text ''ZACAPA'']
              (setcol ''ciudad'' [Text ''ZACAPA'']
                (setcol ''numero_sorteo'' [IntV 1235] sample_premios_out)))"
    by (simp add: sample_raw_defs sample_data_defs frame_defs pandas_defs normalize_defs
          orchestrator_defs sample_defs cong: ebind_weak_cong)
  have s: "normalize_sorteos (sample_env sample_raw failing) (DataFrame [sample_header_bad_date])
      = Inr (setcol ''fecha_sorteo'' [Null]
              (setcol ''numero_sorteo'' [IntV 1235] sample_sorteos_out))"
    by (simp add: sample_raw_defs sample_data_defs frame_defs pandas_defs normalize_defs
          orchestrator_defs sample_defs cong: ebind_weak_cong)
  have y: "derive_year (setcol ''fecha_sorteo'' [Null]
              (setcol ''numero_sorteo'' [IntV 1235] sample_sorteos_out)) 1235
      = Inl (invalid_fecha_sorteo 1235)"
    by (simp add: derive_year_def getcol_setcol)
  from read_and_normalize_parsed [OF sample_download_1235 sample_parse_bad_date] p s y
  show ?thesis
    by (simp add: normalize_def)
qed

lemma sample_process_1234_ok:
  "process_file (sample_env sample_raw []) sample_config 1234 key_1234 w =
     (\<lparr>store = foldl put_object (store w)
                (planned_uploads sample_config 1234 2024 sample_sorteos_out sample_premios_out),
       calls = calls w @ Download ''lake'' key_1234
                 # planned_uploads sample_config 1234 2024 sample_sorteos_out sample_premios_out\<rparr>,
      None)"
proof -
  have "takeWhile (upload_succeeds (sample_env sample_raw []))
        (planned_uploads sample_config 1234 2024 sample_sorteos_out sample_premios_out)
      = planned_uploads sample_config 1234 2024 sample_sorteos_out sample_premios_out"
    by (simp add: sample_plan_1234 upload_succeeds_def sample_env_def)
  with sample_read_and_normalize_1234 [OF sample_download_1234, of "[]" sample_config]
  show ?thesis
    by (simp add: process_file_normalized upload_outputs_result Let_def record_call_def)
       (simp add: sample_config_def planned_uploads_def)
qed

text \<open>
  Claim C1, as stated, fails: the loop has no exception handler. With the file of the bad
  date listed before the file of draw 1234, the run ends with the error of the first file;
  the second file, which is processed without error when the loop starts at it from that
  same world, is never downloaded, and nothing is uploaded.
\<close>

theorem later_files_not_processed_counterexample:
  "process_file (sample_env sample_raw []) sample_config 1235 key_1235 empty_world
     = (record_call (Download ''lake'' key_1235) empty_world, Some (invalid_fecha_sorteo 1235))
   \<and> transform_files (sample_env sample_raw []) sample_config [] [key_1235, key_1234] empty_world
       = (record_call (Download ''lake'' key_1235) empty_world, Some (invalid_fecha_sorteo 1235))
   \<and> snd (transform_files (sample_env sample_raw []) sample_config [] [key_1234]
             (record_call (Download ''lake'' key_1235) empty_world)) = None
   \<and> transform_files (sample_env sample_raw []) sample_config [] [key_1235, key_1234] empty_world
       \<noteq> transform_files (sample_env sample_raw []) sample_config [] [key_1234]
           (record_call (Download ''lake'' key_1235) empty_world)
   \<and> transform (sample_env sample_raw []) sample_config empty_world
       = (\<lparr>store = [],
            calls = [ListProcessed ''lake'' ''silver/sorteos/'', ListFiles ''lake'' ''raw/'',
                     Download ''lake'' key_1235]\<rparr>,
          Some (invalid_fecha_sorteo 1235))"
proof -
  have a: "process_file (sample_env sample_raw []) sample_config 1235 key_1235 w
     = (record_call (Download ''lake'' key_1235) w, Some (invalid_fecha_sorteo 1235))" for w
    using process_file_failed [OF sample_bad_date_normalize, of "[]" w]
    by (simp add: sample_config_def)
  have b: "transform_files (sample_env sample_raw []) sample_config [] [key_1235, key_1234] w
       = (record_call (Download ''lake'' key_1235) w, Some (invalid_fecha_sorteo 1235))" for w
    by (simp add: sample_extract_1235 a)
  have c: "snd (transform_files (sample_env sample_raw []) sample_config [] [key_1234] w) = None"
    for w
    by (simp add: sample_extract_1234 sample_process_1234_ok)
  have d: "transform_files (sample_env sample_raw []) sample_config [] [key_1235, key_1234] empty_world
       \<noteq> transform_files (sample_env sample_raw []) sample_config [] [key_1234]
           (record_call (Download ''lake'' key_1235) empty_world)"
    using b [of empty_world] c [of "record_call (Download ''lake'' key_1235) empty_world"]
    by (metis option.distinct(1) snd_conv)
  have files: "list_files_in_s3 (sample_env sample_raw []) (bucket_name sample_config)
      (raw_prefix sample_config) = Inr [key_1235, key_1234]"
    by (simp add: sample_env_def sample_config_def sample_raw_def key_1234_def key_1235_def)
  have e: "transform (sample_env sample_raw []) sample_config empty_world
       = (\<lparr>store = [],
            calls = [ListProcessed ''lake'' ''silver/sorteos/'', ListFiles ''lake'' ''raw/'',
                     Download ''lake'' key_1235]\<rparr>,
          Some (invalid_fecha_sorteo 1235))"
  proof -
    have "transform (sample_env sample_raw []) sample_config empty_world
        = transform_files (sample_env sample_raw []) sample_config [] [key_1235, key_1234]
            (record_call (ListFiles (bucket_name sample_config) (raw_prefix sample_config))
              (record_call (ListProcessed (bucket_name sample_config)
                 (silver_prefix sample_config @ ''sorteos/'')) empty_world))"
      by (simp add: transform_def Let_def files list_processed_sorteos_in_partitioned_bucket_def
            empty_world_def List.map_filter_def del: transform_files.simps)
    also have "\<dots> = (record_call (Download ''lake'' key_1235)
            (record_call (ListFiles (bucket_name sample_config) (raw_prefix sample_config))
              (record_call (ListProcessed (bucket_name sample_config)
                 (silver_prefix sample_config @ ''sorteos/'')) empty_world)),
          Some (invalid_fecha_sorteo 1235))"
      by (rule b)
    finally show ?thesis
      by (simp add: record_call_def empty_world_def sample_config_def SILVER_PREFIX_DEFAULT_def)
  qed
  from a [of empty_world] b [of empty_world] c d e show ?thesis
    by simp
qed

text \<open>
  Claim C1, amended. When the loop has gone through the files listed before a file without
  error, and processing that file raises at any stage (download, parse, normalization,
  the all-dates-invalid check, an upload), the run ends there with that error: the files
  before it were processed, whatever that file uploaded before raising stays, and no file
  listed after it is downloaded, parsed or uploaded.
\<close>

theorem first_error_ends_run:
  assumes "transform_files env cfg P before w = (w0, None)"
    and "extract_sorteo raw_file = Some n"
    and "n \<notin> set P"
    and "process_file env cfg n raw_file w0 = (w1, Some e)"
  shows "transform_files env cfg P (before @ raw_file # after) w = (w1, Some e)"
  using assms by (simp add: transform_files_append)

theorem first_error_ends_run_witness:
  "transform_files (sample_env sample_raw []) sample_config [] [] empty_world = (empty_world, None)
   \<and> extract_sorteo key_1235 = Some 1235
   \<and> 1235 \<notin> set ([] :: nat list)
   \<and> process_file (sample_env sample_raw []) sample_config 1235 key_1235 empty_world
       = (record_call (Download ''lake'' key_1235) empty_world, Some (invalid_fecha_sorteo 1235))
   \<and> transform_files (sample_env sample_raw []) sample_config [] ([] @ key_1235 # [key_1234])
        empty_world
       = (record_call (Download ''lake'' key_1235) empty_world, Some (invalid_fecha_sorteo 1235))"
proof -
  have nil: "transform_files (sample_env sample_raw []) sample_config [] [] empty_world
      = (empty_world, None)"
    by simp
  have fresh: "1235 \<notin> set ([] :: nat list)"
    by simp
  have fails: "process_file (sample_env sample_raw []) sample_config 1235 key_1235 empty_world
     = (record_call (Download ''lake'' key_1235) empty_world, Some (invalid_fecha_sorteo 1235))"
    using process_file_failed [OF sample_bad_date_normalize, of "[]" empty_world]
    by (simp add: sample_config_def)
  from first_error_ends_run [OF nil sample_extract_1235 fresh fails, of "[key_1234]"]
    nil sample_extract_1235 fails
  show ?thesis by simp
qed

lemma digit_char_is_digit: "d < 10 \<Longrightarrow> is_digit (digit_char d)"
proof -
  assume "d < 10"
  then have "d \<in> {0, 1, 2, 3, 4, 5, 6, 7, 8, 9}" by auto
  then show ?thesis
    by (auto simp: is_digit_def digit_char_def)
qed

lemma digit_val_digit_char: "d < 10 \<Longrightarrow> digit_val (digit_char d) = d"
proof -
  assume "d < 10"
  then have "d \<in> {0, 1, 2, 3, 4, 5, 6, 7, 8, 9}" by auto
  then show ?thesis
    by (auto simp: digit_val_def digit_char_def)
qed

lemma show_nat_digits: "list_all is_digit (show_nat n) \<and> show_nat n \<noteq> []"
proof (induction n rule: show_nat.induct)
  case (1 n)
  show ?case
  proof (cases "n < 10")
    case True
    then show ?thesis
      by (subst (1 2) show_nat.simps) (simp add: digit_char_is_digit)
  next
    case False
    with "1.IH" show ?thesis
      by (subst (1 2) show_nat.simps) (simp add: digit_char_is_digit)
  qed
qed

lemma int_of_digits_snoc: "int_of_digits (ds @ [c]) = 10 * int_of_digits ds + digit_val c"
  by (simp add: int_of_digits_def)

lemma int_of_digits_show_nat: "int_of_digits (show_nat n) = n"
proof (induction n rule: show_nat.induct)
  case (1 n)
  show ?case
  proof (cases "n < 10")
    case True
    then show ?thesis
      by (subst show_nat.simps) (simp add: int_of_digits_def digit_val_digit_char)
  next
    case False
    with "1.IH" show ?thesis
      by (subst show_nat.simps) (simp add: int_of_digits_snoc digit_val_digit_char)
  qed
qed

lemma is_digit_not_s: "is_digit c \<Longrightarrow> c \<noteq> CHR ''s''"
  by (auto simp: is_digit_def)

lemma show_int_no_s: "list_all (\<lambda>c. c \<noteq> CHR ''s'') (show_int y)"
  using show_nat_digits [of "nat y"] show_nat_digits [of "nat (- y)"]
  by (auto simp: show_int_def list_all_iff dest: is_digit_not_s)

lemma match_sorteo_here_not_s: "c \<noteq> CHR ''s'' \<Longrightarrow> match_sorteo_here (c # cs) = None"
  by (auto simp: match_sorteo_here_def)

lemma re_search_skip:
  "list_all (\<lambda>c. c \<noteq> CHR ''s'') p \<Longrightarrow> re_search_sorteo (p @ s) = re_search_sorteo s"
  by (induction p) (simp_all add: match_sorteo_here_not_s)

lemma match_sorteo_here_digits:
  assumes "list_all is_digit ds" and "ds \<noteq> []"
  shows "match_sorteo_here (''sorteo='' @ ds @ CHR ''/'' # rest) = Some ds"
proof -
  from assms(1) have "takeWhile is_digit (ds @ CHR ''/'' # rest) = ds"
    by (simp add: takeWhile_append2 list_all_iff is_digit_def)
  moreover from assms(1) have "dropWhile is_digit (ds @ CHR ''/'' # rest) = CHR ''/'' # rest"
    by (simp add: dropWhile_append2 list_all_iff is_digit_def)
  ultimately show ?thesis
    using assms(2) by (simp add: match_sorteo_here_def)
qed

lemma extract_partitioned_key:
  assumes "silver_prefix cfg = SILVER_PREFIX_DEFAULT"
  shows "extract_sorteo (partitioned_key cfg ''sorteos'' year n) = Some n"
proof -
  let ?tail = "''sorteo='' @ show_nat n @ CHR ''/'' # ''sorteos.parquet''"
  have key: "partitioned_key cfg ''sorteos'' year n
      = ''silver/sorteos/year='' @ show_int year @ CHR ''/'' # ?tail"
    by (simp add: partitioned_key_def assms SILVER_PREFIX_DEFAULT_def)
  have "re_search_sorteo (''silver/sorteos/year='' @ show_int year @ CHR ''/'' # ?tail)
      = re_search_sorteo (show_int year @ CHR ''/'' # ?tail)"
    by (simp add: match_sorteo_here_def)
  also have "\<dots> = re_search_sorteo (CHR ''/'' # ?tail)"
    by (rule re_search_skip [OF show_int_no_s])
  also have "\<dots> = re_search_sorteo ?tail"
    by (simp add: match_sorteo_here_def)
  also have "\<dots> = Some (show_nat n)"
    using match_sorteo_here_digits [of "show_nat n" "''sorteos.parquet''"] show_nat_digits [of n]
    by simp
  finally show ?thesis
    by (simp add: extract_sorteo_def key int_of_digits_show_nat)
qed

lemma partitioned_key_prefix:
  "take (length (silver_prefix cfg @ ''sorteos/'')) (partitioned_key cfg ''sorteos'' year n)
     = silver_prefix cfg @ ''sorteos/''"
  by (simp add: partitioned_key_def)

lemma keys_put_object:
  "fst ` set (put_object objects (Upload b k p)) = insert (b, k) (fst ` set objects)"
  using dom_update [of "(b, k)" p objects]
  by (simp add: put_object_def dom_map_of_conv_image_fst)

lemma keys_foldl_put_object:
  "fst ` set (foldl put_object objects evs)
     = fst ` set objects \<union> {(b, k). \<exists>p. Upload b k p \<in> set evs}"
proof (induction evs arbitrary: objects)
  case Nil
  then show ?case by simp
next
  case (Cons ev evs)
  show ?case
  proof (cases ev)
    case (Upload b k p)
    with Cons.IH [of "put_object objects ev"] show ?thesis
      by (auto simp: keys_put_object)
  qed (use Cons.IH [of objects] in \<open>auto simp: put_object_def\<close>)
qed

lemma listings_append [simp]: "listings (xs @ ys) = listings xs + listings ys"
  by (simp add: listings_def)

lemma listings_planned_uploads:
  "listings (take k (planned_uploads cfg n year sorteos_df premios_df)) = 0"
proof -
  have "set (take k (planned_uploads cfg n year sorteos_df premios_df))
      \<subseteq> set (planned_uploads cfg n year sorteos_df premios_df)"
    by (rule set_take_subset)
  then show ?thesis
    by (auto simp: listings_def planned_uploads_def filter_empty_conv)
qed

lemma process_file_world:
  assumes "process_file env cfg n raw_file w = (w', r)"
  shows "listings (calls w') = listings (calls w)
     \<and> object_keys w \<subseteq> object_keys w'
     \<and> (r = None \<longrightarrow>
          (\<exists>year. (partitioned_bucket cfg, partitioned_key cfg ''sorteos'' year n) \<in> object_keys w'))"
proof (cases "read_and_normalize env cfg n raw_file")
  case (Inl e)
  with assms show ?thesis
    by (auto simp: process_file_failed record_call_def listings_def object_keys_def)
next
  case (Inr res)
  obtain sorteos_df premios_df year where res: "res = (sorteos_df, premios_df, year)"
    by (cases res)
  let ?plan = "planned_uploads cfg n year sorteos_df premios_df"
  let ?done = "takeWhile (upload_succeeds env) ?plan"
  from assms Inr res have w': "store w' = foldl put_object (store w) ?done"
    "calls w' = calls w @ Download (bucket_name cfg) raw_file # take (Suc (length ?done)) ?plan"
    and r: "r = None \<longleftrightarrow> ?done = ?plan"
    by (auto simp: process_file_normalized upload_outputs_result Let_def record_call_def
          split: if_splits)
  have l: "listings (calls w') = listings (calls w)"
    using listings_planned_uploads [of "Suc (length ?done)" cfg n year sorteos_df premios_df]
    unfolding w'(2) by (simp add: listings_def)
  have k: "object_keys w \<subseteq> object_keys w'"
    by (auto simp: object_keys_def w'(1) keys_foldl_put_object)
  have "(partitioned_bucket cfg, partitioned_key cfg ''sorteos'' year n) \<in> object_keys w'"
    if "r = None"
  proof -
    from that r have eq: "?done = ?plan" by simp
    have "store w' = foldl put_object (store w) ?plan"
      using w'(1) by (simp only: eq)
    then show ?thesis
      by (simp add: object_keys_def keys_foldl_put_object)
         (auto simp: planned_uploads_def)
  qed
  with l k show ?thesis by blast
qed

lemma transform_files_world:
  "transform_files env cfg P raw_files w = (w', r) \<Longrightarrow>
     listings (calls w') = listings (calls w)
     \<and> object_keys w \<subseteq> object_keys w'
     \<and> (r = None \<longrightarrow>
          (\<forall>f \<in> set raw_files. \<forall>n. extract_sorteo f = Some n \<longrightarrow>
             n \<in> set P \<or>
             (\<exists>year. (partitioned_bucket cfg, partitioned_key cfg ''sorteos'' year n)
                       \<in> object_keys w')))"
proof (induction raw_files arbitrary: w)
  case Nil
  then show ?case by auto
next
  case (Cons x xs)
  show ?case
  proof (cases "to_process P x")
    case False
    with Cons.prems have "transform_files env cfg P xs w = (w', r)"
      by (auto simp: to_process_def split: option.splits if_splits)
    from Cons.IH [OF this] False show ?thesis
      by (auto simp: to_process_def split: option.splits)
  next
    case True
    then obtain n where n: "extract_sorteo x = Some n" "n \<notin> set P"
      by (auto simp: to_process_def split: option.splits)
    obtain w1 r1 where p: "process_file env cfg n x w = (w1, r1)"
      by (cases "process_file env cfg n x w")
    note pw = process_file_world [OF p]
    show ?thesis
    proof (cases r1)
      case (Some e)
      with Cons.prems n p have "w' = w1" "r = Some e"
        by simp_all
      with pw show ?thesis by simp
    next
      case None
      with Cons.prems n p have rest: "transform_files env cfg P xs w1 = (w', r)"
        by simp
      note ih = Cons.IH [OF rest]
      from pw None obtain year where
        "(partitioned_bucket cfg, partitioned_key cfg ''sorteos'' year n) \<in> object_keys w1"
        by blast
      with ih have "(partitioned_bucket cfg, partitioned_key cfg ''sorteos'' year n)
          \<in> object_keys w'"
        by blast
      with ih pw n show ?thesis
        by auto
    qed
  qed
qed

lemma set_list_processed:
  "set (list_processed_sorteos_in_partitioned_bucket objects bucket prefix)
     = {n. \<exists>k. (bucket, k) \<in> fst ` set objects \<and> take (length prefix) k = prefix
              \<and> extract_sorteo k = Some n}"
  by (force simp: list_processed_sorteos_in_partitioned_bucket_def List.map_filter_def
        image_iff split: if_splits)

lemma transform_files_all_skipped:
  "\<forall>f \<in> set raw_files. \<not> to_process P f \<Longrightarrow> transform_files env cfg P raw_files w = (w, None)"
proof -
  assume "\<forall>f \<in> set raw_files. \<not> to_process P f"
  then have "filter (to_process P) raw_files = []"
    by (simp add: filter_empty_conv)
  with transform_files_to_process [of env cfg P raw_files w] show ?thesis
    by simp
qed

lemma transform_listed_once:
  "listings (calls (fst (transform env cfg w))) = Suc (listings (calls w))"
proof (cases "list_files_in_s3 env (bucket_name cfg) (raw_prefix cfg)")
  case (Inl e)
  then show ?thesis
    by (simp add: transform_def Let_def record_call_def listings_def)
next
  case (Inr raw_files)
  let ?P = "list_processed_sorteos_in_partitioned_bucket (store w) (bucket_name cfg)
              (silver_prefix cfg @ ''sorteos/'')"
  let ?w0 = "record_call (ListFiles (bucket_name cfg) (raw_prefix cfg))
              (record_call (ListProcessed (bucket_name cfg) (silver_prefix cfg @ ''sorteos/'')) w)"
  obtain w' r where run: "transform_files env cfg ?P raw_files ?w0 = (w', r)"
    by (cases "transform_files env cfg ?P raw_files ?w0")
  from transform_files_world [OF run] have "listings (calls w') = listings (calls ?w0)"
    by simp
  moreover have "transform env cfg w = (w', r)"
    using Inr run by (simp add: transform_def Let_def)
  ultimately show ?thesis
    by (simp add: record_call_def listings_def)
qed

lemma second_run_skips_everything:
  assumes "bucket_name cfg = partitioned_bucket cfg"
    and "silver_prefix cfg = SILVER_PREFIX_DEFAULT"
    and "transform env cfg w = (w1, None)"
  shows "transform env cfg w1 =
     (\<lparr>store = store w1,
       calls = calls w1 @ [ListProcessed (bucket_name cfg) (silver_prefix cfg @ ''sorteos/''),
                           ListFiles (bucket_name cfg) (raw_prefix cfg)]\<rparr>, None)"
proof -
  let ?prefix = "silver_prefix cfg @ ''sorteos/''"
  let ?P1 = "list_processed_sorteos_in_partitioned_bucket (store w) (bucket_name cfg) ?prefix"
  let ?P2 = "list_processed_sorteos_in_partitioned_bucket (store w1) (bucket_name cfg) ?prefix"
  let ?w0 = "record_call (ListFiles (bucket_name cfg) (raw_prefix cfg))
              (record_call (ListProcessed (bucket_name cfg) ?prefix) w)"
  let ?w2 = "record_call (ListFiles (bucket_name cfg) (raw_prefix cfg))
              (record_call (ListProcessed (bucket_name cfg) ?prefix) w1)"
  from assms(3) obtain raw_files where
    files: "list_files_in_s3 env (bucket_name cfg) (raw_prefix cfg) = Inr raw_files"
    and run: "transform_files env cfg ?P1 raw_files ?w0 = (w1, None)"
    by (cases "list_files_in_s3 env (bucket_name cfg) (raw_prefix cfg)")
       (auto simp: transform_def Let_def)
  note inv = transform_files_world [OF run]
  have keys: "object_keys w \<subseteq> object_keys w1"
    using inv by (simp add: object_keys_def record_call_def)
  have "\<not> to_process ?P2 f" if f: "f \<in> set raw_files" for f
  proof (cases "extract_sorteo f")
    case None
    then show ?thesis by (simp add: to_process_def)
  next
    case (Some n)
    with inv f have "n \<in> set ?P1 \<or>
        (\<exists>year. (partitioned_bucket cfg, partitioned_key cfg ''sorteos'' year n) \<in> object_keys w1)"
      by blast
    then have "n \<in> set ?P2"
    proof
      assume "n \<in> set ?P1"
      then obtain k where k: "(bucket_name cfg, k) \<in> fst ` set (store w)"
        "take (length ?prefix) k = ?prefix" "extract_sorteo k = Some n"
        unfolding set_list_processed by blast
      from k(1) keys have "(bucket_name cfg, k) \<in> fst ` set (store w1)"
        by (auto simp: object_keys_def)
      with k(2,3) show ?thesis
        unfolding set_list_processed by blast
    next
      assume "\<exists>year. (partitioned_bucket cfg, partitioned_key cfg ''sorteos'' year n)
          \<in> object_keys w1"
      then obtain year where
        "(bucket_name cfg, partitioned_key cfg ''sorteos'' year n) \<in> fst ` set (store w1)"
        by (auto simp: object_keys_def assms(1))
      with partitioned_key_prefix [of cfg year n] extract_partitioned_key [OF assms(2), of year n]
      show ?thesis
        unfolding set_list_processed by blast
    qed
    with Some show ?thesis by (simp add: to_process_def)
  qed
  then have "transform_files env cfg ?P2 raw_files ?w2 = (?w2, None)"
    by (intro transform_files_all_skipped) blast
  with files show ?thesis
    by (simp add: transform_def Let_def record_call_def)
qed

text \<open>
  Claim C4. In every run the processed draws are listed exactly once, before the loop,
  however many raw files there are, and the loop behaves as if the raw files whose key gives
  a listed draw number (or no draw number) were not there: nothing is downloaded or uploaded
  for them. When a run over the canonical bucket with the default silver prefix completes
  without error, a second run over the same raw files finds every draw number in its listing:
  it makes the two listing calls and nothing else, and the objects are unchanged. (The
  listing helper is modelled from the spec.)
\<close>

theorem second_run_is_idempotent:
  "transform_files env cfg P raw_files w
     = transform_files env cfg P (filter (to_process P) raw_files) w
   \<and> listings (calls (fst (transform env cfg w))) = Suc (listings (calls w))
   \<and> (\<forall>w1. bucket_name cfg = partitioned_bucket cfg
            \<and> silver_prefix cfg = SILVER_PREFIX_DEFAULT
            \<and> transform env cfg w = (w1, None) \<longrightarrow>
          transform env cfg w1 =
            (\<lparr>store = store w1,
              calls = calls w1 @ [ListProcessed (bucket_name cfg) (silver_prefix cfg @ ''sorteos/''),
                                  ListFiles (bucket_name cfg) (raw_prefix cfg)]\<rparr>, None))"
  using transform_files_to_process [of env cfg P raw_files w]
    transform_listed_once [of env cfg w] second_run_skips_everything [of cfg env w]
  by blast

lemma sample_one_download:
  "download_lines sample_env_one (bucket_name cfg) key_1234 = Inr file_1234"
  by (simp add: sample_env_one_def sample_env_def)

lemma sample_one_process:
  "process_file sample_env_one sample_config 1234 key_1234 w =
     (\<lparr>store = foldl put_object (store w)
                (planned_uploads sample_config 1234 2024 sample_sorteos_out sample_premios_out),
       calls = calls w @ Download ''lake'' key_1234
                 # planned_uploads sample_config 1234 2024 sample_sorteos_out sample_premios_out\<rparr>,
      None)"
proof -
  have "takeWhile (upload_succeeds sample_env_one)
        (planned_uploads sample_config 1234 2024 sample_sorteos_out sample_premios_out)
      = planned_uploads sample_config 1234 2024 sample_sorteos_out sample_premios_out"
    by (simp add: sample_plan_1234 upload_succeeds_def sample_env_one_def sample_env_def)
  moreover have "read_and_normalize sample_env_one sample_config 1234 key_1234
      = Inr (sample_sorteos_out, sample_premios_out, 2024)"
    using sample_read_and_normalize_1234 [OF sample_one_download [unfolded sample_env_one_def]]
    by (simp add: sample_env_one_def)
  ultimately show ?thesis
    by (simp add: process_file_normalized upload_outputs_result Let_def record_call_def)
       (simp add: sample_config_def planned_uploads_def)
qed

lemma sample_first_run:
  "transform sample_env_one sample_config empty_world = (world_after_first_run, None)"
proof -
  have files: "list_files_in_s3 sample_env_one (bucket_name sample_config)
      (raw_prefix sample_config) = Inr [key_1234]"
    by (simp add: sample_env_one_def sample_env_def sample_config_def key_1234_def)
  have "transform sample_env_one sample_config empty_world
      = process_file sample_env_one sample_config 1234 key_1234
          (record_call (ListFiles (bucket_name sample_config) (raw_prefix sample_config))
            (record_call (ListProcessed (bucket_name sample_config)
               (silver_prefix sample_config @ ''sorteos/'')) empty_world))"
    by (simp add: transform_def Let_def files sample_extract_1234
          list_processed_sorteos_in_partitioned_bucket_def empty_world_def List.map_filter_def
          sample_one_process)
  then show ?thesis
    by (simp only: sample_one_process)
       (simp add: world_after_first_run_def record_call_def empty_world_def
          sample_config_def SILVER_PREFIX_DEFAULT_def)
qed

theorem second_run_is_idempotent_witness:
  "bucket_name sample_config = partitioned_bucket sample_config
   \<and> silver_prefix sample_config = SILVER_PREFIX_DEFAULT
   \<and> transform sample_env_one sample_config empty_world = (world_after_first_run, None)
   \<and> transform sample_env_one sample_config world_after_first_run
       = (\<lparr>store = store world_after_first_run,
            calls = calls world_after_first_run
                      @ [ListProcessed ''lake'' ''silver/sorteos/'', ListFiles ''lake'' ''raw/'']\<rparr>,
          None)
   \<and> listings (calls (fst (transform sample_env_one sample_config empty_world))) = 1
   \<and> filter (to_process [1234]) [key_1234, ''raw/readme.txt''] = []
   \<and> transform_files sample_env_one sample_config [1234] [key_1234, ''raw/readme.txt''] empty_world
       = (empty_world, None)"
proof -
  have cfg: "bucket_name sample_config = partitioned_bucket sample_config"
    "silver_prefix sample_config = SILVER_PREFIX_DEFAULT"
    by (simp_all add: sample_config_def)
  have skipped: "filter (to_process [1234]) [key_1234, ''raw/readme.txt''] = []"
    by (simp add: to_process_def sample_extract_1234) (simp add: orchestrator_defs)
  note run = second_run_is_idempotent
    [of sample_env_one sample_config "[1234]" "[key_1234, ''raw/readme.txt'']" empty_world]
  from run cfg sample_first_run
  have again: "transform sample_env_one sample_config world_after_first_run
       = (\<lparr>store = store world_after_first_run,
            calls = calls world_after_first_run
                      @ [ListProcessed (bucket_name sample_config)
                           (silver_prefix sample_config @ ''sorteos/''),
                         ListFiles (bucket_name sample_config) (raw_prefix sample_config)]\<rparr>,
          None)"
    by blast
  from run have once: "listings (calls (fst (transform sample_env_one sample_config empty_world)))
      = Suc (listings (calls empty_world))"
    by blast
  from run skipped
  have none: "transform_files sample_env_one sample_config [1234] [key_1234, ''raw/readme.txt'']
      empty_world = (empty_world, None)"
    by simp
  from cfg sample_first_run again once skipped none show ?thesis
    by (simp add: sample_config_def SILVER_PREFIX_DEFAULT_def listings_def empty_world_def)
qed

end
